theory Spec2Isabelle
  imports Complex_Main "HOL-Library.Log_Nat"
begin

section \<open>Numbers\<close>

text \<open>
  The program computes with C++ \<^verbatim>\<open>double\<close>. A double is modelled by the real number it
  holds. Unless a function says otherwise its arithmetic is exact: the statements proved
  of such a function are those that do not depend on rounding (which branch is taken
  on the values the code compares, which exception is thrown, what is stored). Two
  things are modelled more closely:
  \<^item> the unguarded division of \<^verbatim>\<open>Hyperplane::ratioDistance\<close>, whose quotient has the IEEE
    special cases: a nonzero numerator over zero is an infinity with the numerator's
    sign (every zero denominator of the program is a running sum started at \<^verbatim>\<open>0.0\<close>,
    hence \<^verbatim>\<open>+0.0\<close>), and zero over zero is NaN;
  \<^item> the arithmetic of \<^verbatim>\<open>Hyperplane::intersection\<close>, where every product, difference
    and quotient is rounded to binary64 (below).
  Overflow and subnormal numbers are outside the model.
\<close>

datatype dbl = Finite real | PosInf | NegInf | NaN

definition ddiv :: "real \<Rightarrow> real \<Rightarrow> dbl" where
  "ddiv x y =
     (if y \<noteq> 0 then Finite (x / y)
      else if 0 < x then PosInf
      else if x < 0 then NegInf
      else NaN)"

text \<open>\<^verbatim>\<open>a < b\<close> on doubles: every comparison with NaN is false.\<close>

fun dless :: "dbl \<Rightarrow> dbl \<Rightarrow> bool" where
  "dless NaN y = False"
| "dless x NaN = False"
| "dless (Finite x) (Finite y) = (x < y)"
| "dless (Finite x) PosInf = True"
| "dless (Finite x) NegInf = False"
| "dless PosInf y = False"
| "dless NegInf NegInf = False"
| "dless NegInf y = True"

text \<open>\<^verbatim>\<open>std::max(a, b)\<close> is \<^verbatim>\<open>(a < b) ? b : a\<close>.\<close>

definition std_max :: "dbl \<Rightarrow> dbl \<Rightarrow> dbl" where
  "std_max x y = (if dless x y then y else x)"

subsection \<open>Rounding to binary64\<close>

text \<open>
  An IEEE operation returns the exact result rounded to the nearest binary64 number,
  ties to the even significand. For \<open>x \<noteq> 0\<close> with \<open>2\<^sup>e \<le> |x| < 2\<^sup>e\<^sup>+\<^sup>1\<close> the binary64
  numbers around \<open>x\<close> are the multiples of \<open>2\<^sup>e\<^sup>-\<^sup>5\<^sup>2\<close> (a significand of 53 bits), so
  \<open>round64 x\<close> rounds \<open>|x| / 2\<^sup>e\<^sup>-\<^sup>5\<^sup>2\<close> to an integer. The exponent range is not bounded.
\<close>

definition expo :: "real \<Rightarrow> int" where
  "expo a = (if 1 \<le> a then bitlen \<lfloor>a\<rfloor> - 1 else - bitlen (\<lceil>1 / a\<rceil> - 1))"

definition round_half_even :: "real \<Rightarrow> int" where
  "round_half_even q =
     (let f = \<lfloor>q\<rfloor>; r = q - of_int f
      in if r < 1 / 2 then f else if 1 / 2 < r then f + 1 else if even f then f else f + 1)"

definition round64 :: "real \<Rightarrow> real" where
  "round64 x =
     (if x = 0 then 0
      else let a = \<bar>x\<bar>; u = 2 powi (expo a - 52)
           in sgn x * of_int (round_half_even (a / u)) * u)"

section \<open>Errors\<close>

text \<open>
  Every exception class thrown by the modelled code, and a failed \<^verbatim>\<open>assert\<close>, is a
  value of \<open>error\<close>; a function that can throw returns \<open>error + 'a\<close>.
\<close>

datatype error =
    DifferentDimensionsException
  | NonExistentCoordinateException
  | NonExistentCoefficientException
  | NullObjectException
  | SamePointsException
  | Not2DPointsException
  | Not2DHyperplanesException
  | ParallelHyperplanesException
  | BoundaryFacetException
  | InfiniteRatioDistanceException
  | NotStrictlyPositivePointException
  | AssertionFailure

definition bind_err :: "error + 'a \<Rightarrow> ('a \<Rightarrow> error + 'b) \<Rightarrow> error + 'b" where
  "bind_err m f = (case m of Inl e \<Rightarrow> Inl e | Inr x \<Rightarrow> f x)"

section \<open>Point\<close>

text \<open>
  Modelled from the spec: \<^verbatim>\<open>Point.cpp\<close> is not among the sources (only an older
  \<^verbatim>\<open>Point.h\<close> and the tests are). A Point is an ordered tuple of coordinates with a
  distinguished null state; equality is coordinate-wise (different dimensions are
  unequal), \<^verbatim>\<open>operator<\<close> is the lexicographic order and fails with
  DifferentDimensions on a dimension mismatch, \<^verbatim>\<open>operator[]\<close> fails with
  NonExistentCoordinate out of range.
\<close>

record Point =
  coordinates :: "real list"
  Point_null :: bool

definition mkPoint :: "real list \<Rightarrow> Point" where
  "mkPoint xs = \<lparr>coordinates = xs, Point_null = False\<rparr>"

definition nullPoint :: Point where
  "nullPoint = \<lparr>coordinates = [], Point_null = True\<rparr>"

definition isNull :: "Point \<Rightarrow> bool" where
  "isNull p = Point_null p"

definition dimension :: "Point \<Rightarrow> nat" where
  "dimension p = length (coordinates p)"

definition Point_at :: "Point \<Rightarrow> nat \<Rightarrow> error + real" where
  "Point_at p pos =
     (if pos \<ge> dimension p then Inl NonExistentCoordinateException
      else Inr (coordinates p ! pos))"

definition Point_eq :: "Point \<Rightarrow> Point \<Rightarrow> bool" where
  "Point_eq p q = (coordinates p = coordinates q)"

fun lex_less :: "real list \<Rightarrow> real list \<Rightarrow> bool" where
  "lex_less (x # xs) (y # ys) = (x < y \<or> (x = y \<and> lex_less xs ys))"
| "lex_less xs ys = False"

definition Point_less :: "Point \<Rightarrow> Point \<Rightarrow> error + bool" where
  "Point_less p q =
     (if dimension p \<noteq> dimension q then Inl DifferentDimensionsException
      else Inr (lex_less (coordinates p) (coordinates q)))"

definition isStrictlyPositive :: "Point \<Rightarrow> bool" where
  "isStrictlyPositive p = list_all (\<lambda>x. 0 < x) (coordinates p)"

text \<open>The inner product \<open>a\<cdot>p\<close> the claims speak of.\<close>

definition dot :: "real list \<Rightarrow> real list \<Rightarrow> real" where
  "dot xs ys = sum_list (map2 (*) xs ys)"

section \<open>std::set<Point>\<close>

text \<open>
  A \<^verbatim>\<open>std::set<Point>\<close> is kept as the list of its elements in iteration order, which is
  increasing in \<^verbatim>\<open>Point::operator<\<close>. Inserting an element equivalent to a stored one
  (neither is less than the other) leaves the set unchanged.
\<close>

fun set_insert :: "Point \<Rightarrow> Point list \<Rightarrow> error + Point list" where
  "set_insert p [] = Inr [p]"
| "set_insert p (q # qs) =
     bind_err (Point_less p q) (\<lambda>lt.
       if lt then Inr (p # q # qs)
       else bind_err (Point_less q p) (\<lambda>gt.
         if gt then bind_err (set_insert p qs) (\<lambda>r. Inr (q # r))
         else Inr (q # qs)))"

fun set_of_range :: "Point list \<Rightarrow> Point list \<Rightarrow> error + Point list" where
  "set_of_range [] s = Inr s"
| "set_of_range (p # ps) s = bind_err (set_insert p s) (set_of_range ps)"

section \<open>Hyperplane\<close>

record Hyperplane =
  coefficients :: "real list"
  h_b :: real

text \<open>The constructors from a coefficient range and \<open>b\<close>.\<close>

definition mkHyperplane :: "real list \<Rightarrow> real \<Rightarrow> Hyperplane" where
  "mkHyperplane a b = \<lparr>coefficients = a, h_b = b\<rparr>"

definition space_dimension :: "Hyperplane \<Rightarrow> nat" where
  "space_dimension h = length (coefficients h)"

text \<open>\<^verbatim>\<open>Hyperplane::operator[]\<close>.\<close>

definition Hyperplane_at :: "Hyperplane \<Rightarrow> nat \<Rightarrow> error + real" where
  "Hyperplane_at h pos =
     (if pos \<ge> space_dimension h then Inl NonExistentCoefficientException
      else Inr (coefficients h ! pos))"

text \<open>
  \<^verbatim>\<open>Hyperplane::init\<close>: the range must hold exactly two points (the assertion
  \<^verbatim>\<open>temp == last\<close> after two increments; a shorter range, where the source increments
  an iterator past the end, is counted as the same failure). The coefficient \<open>a2\<close> and
  the offset are exact here and rounded in the code; nothing below is stated about
  their values.
\<close>

definition init :: "Point list \<Rightarrow> error + Hyperplane" where
  "init points =
     (if length points \<noteq> 2 then Inl AssertionFailure
      else
        let p1 = points ! 0; p2 = points ! 1 in
        bind_err (Point_at p1 1) (\<lambda>p1y.
        bind_err (Point_at p2 1) (\<lambda>p2y.
          if p1y \<noteq> p2y then
            bind_err (Point_at p2 0) (\<lambda>p2x.
            bind_err (Point_at p1 0) (\<lambda>p1x.
              let a1 = 1; a2 = (p2x - p1x) / (p1y - p2y) in
              Inr \<lparr>coefficients = [a1, a2], h_b = p1x + a2 * p1y\<rparr>))
          else
            Inr \<lparr>coefficients = [0, 1], h_b = p1y\<rparr>)))"

text \<open>\<^verbatim>\<open>Hyperplane::Hyperplane(const Point & p1, const Point & p2)\<close>.\<close>

definition Hyperplane_of_two_points :: "Point \<Rightarrow> Point \<Rightarrow> error + Hyperplane" where
  "Hyperplane_of_two_points p1 p2 =
     (if Point_eq p1 p2 then Inl SamePointsException
      else if dimension p1 \<noteq> 2 \<or> dimension p2 \<noteq> 2 then Inl Not2DPointsException
      else bind_err (set_insert p1 []) (\<lambda>s.
           bind_err (set_insert p2 s) init))"

text \<open>
  The two Point-range constructors: from the iterators of a \<^verbatim>\<open>std::set<Point>\<close> (given
  here by its elements in iteration order), and from an array of Points, which is first
  copied into a set.
\<close>

definition Hyperplane_of_set :: "Point list \<Rightarrow> error + Hyperplane" where
  "Hyperplane_of_set points = init points"

definition Hyperplane_of_array :: "Point list \<Rightarrow> error + Hyperplane" where
  "Hyperplane_of_array ps = bind_err (set_of_range ps []) init"

text \<open>
  \<^verbatim>\<open>Hyperplane::operator==\<close>: the loop over \<open>i = 0 .. space_dimension - 1\<close> returns false
  at the first index whose cross-scaled coefficients differ. The products compared are
  exact here and rounded in the code; the two agree wherever the products are doubles,
  as they are on every input evaluated below.
\<close>

fun eq_loop :: "Hyperplane \<Rightarrow> Hyperplane \<Rightarrow> nat list \<Rightarrow> error + bool" where
  "eq_loop h g [] = Inr True"
| "eq_loop h g (i # is) =
     bind_err (Hyperplane_at g i) (\<lambda>gi.
       if coefficients h ! i * h_b g \<noteq> gi * h_b h then Inr False
       else eq_loop h g is)"

definition Hyperplane_eq :: "Hyperplane \<Rightarrow> Hyperplane \<Rightarrow> error + bool" where
  "Hyperplane_eq h g =
     (if space_dimension h \<noteq> space_dimension g then Inr False
      else eq_loop h g [0..<space_dimension h])"

text \<open>
  \<^verbatim>\<open>Hyperplane::isParallel\<close>, on exact products (\<open>isParallel_rnd\<close> below rounds
  them).
\<close>

fun parallel_loop :: "Hyperplane \<Rightarrow> Hyperplane \<Rightarrow> nat list \<Rightarrow> error + bool" where
  "parallel_loop h g [] = Inr True"
| "parallel_loop h g (i # is) =
     bind_err (Hyperplane_at g 0) (\<lambda>g0.
     bind_err (Hyperplane_at g i) (\<lambda>gi.
       if coefficients h ! i * g0 \<noteq> gi * coefficients h ! 0 then Inr False
       else parallel_loop h g is))"

definition isParallel :: "Hyperplane \<Rightarrow> Hyperplane \<Rightarrow> error + bool" where
  "isParallel h g =
     (if space_dimension h \<noteq> space_dimension g then Inr False
      else parallel_loop h g [0..<space_dimension h])"

text \<open>
  The loop \<^verbatim>\<open>for (i = 0; i != space_dimension(); ++i) sum += coefficients_[i] * p[i]\<close>
  shared by \<^verbatim>\<open>ratioDistance\<close> and \<^verbatim>\<open>parallelThrough\<close>; \<^verbatim>\<open>p[i]\<close> throws out of range.
\<close>

fun dot_loop :: "real list \<Rightarrow> Point \<Rightarrow> nat list \<Rightarrow> real \<Rightarrow> error + real" where
  "dot_loop a p [] acc = Inr acc"
| "dot_loop a p (i # is) acc =
     bind_err (Point_at p i) (\<lambda>pi. dot_loop a p is (acc + a ! i * pi))"

text \<open>\<^verbatim>\<open>Hyperplane::ratioDistance\<close>.\<close>

definition ratioDistance :: "Hyperplane \<Rightarrow> Point \<Rightarrow> error + dbl" where
  "ratioDistance h p =
     (if space_dimension h \<noteq> dimension p then Inl DifferentDimensionsException
      else bind_err (dot_loop (coefficients h) p [0..<space_dimension h] 0) (\<lambda>dotProduct.
             Inr (std_max (ddiv (h_b h - dotProduct) dotProduct) (Finite 0))))"

text \<open>\<^verbatim>\<open>Hyperplane::parallelThrough\<close>.\<close>

definition parallelThrough :: "Hyperplane \<Rightarrow> Point \<Rightarrow> error + Hyperplane" where
  "parallelThrough h p =
     bind_err (dot_loop (coefficients h) p [0..<space_dimension h] 0) (\<lambda>newB.
       Inr (mkHyperplane (coefficients h) newB))"

text \<open>
  \<^verbatim>\<open>Hyperplane::isParallel\<close> with every product rounded by \<open>rnd\<close> before it is
  compared: with the identity for \<open>rnd\<close> this is \<open>isParallel\<close> above, with \<open>round64\<close>
  it is the comparison of two doubles that the code makes.
\<close>

fun parallel_loop_rnd ::
  "(real \<Rightarrow> real) \<Rightarrow> Hyperplane \<Rightarrow> Hyperplane \<Rightarrow> nat list \<Rightarrow> error + bool" where
  "parallel_loop_rnd rnd h g [] = Inr True"
| "parallel_loop_rnd rnd h g (i # is) =
     bind_err (Hyperplane_at g 0) (\<lambda>g0.
     bind_err (Hyperplane_at g i) (\<lambda>gi.
       if rnd (coefficients h ! i * g0) \<noteq> rnd (gi * coefficients h ! 0) then Inr False
       else parallel_loop_rnd rnd h g is))"

definition isParallel_rnd ::
  "(real \<Rightarrow> real) \<Rightarrow> Hyperplane \<Rightarrow> Hyperplane \<Rightarrow> error + bool" where
  "isParallel_rnd rnd h g =
     (if space_dimension h \<noteq> space_dimension g then Inr False
      else parallel_loop_rnd rnd h g [0..<space_dimension h])"




section \<open>Linear algebra of the Armadillo library\<close>

text \<open>
  \<^verbatim>\<open>arma::det\<close> and \<^verbatim>\<open>arma::solve\<close> belong to the Armadillo library, not to this
  program. A matrix is the list of its rows. The determinant is modelled by its
  mathematical value (Laplace expansion along the first row). The solver is a parameter
  \<open>solve\<close> of every function that calls it: \<open>solve W b\<close> is \<open>Some x\<close> when
  \<^verbatim>\<open>arma::solve(x, W, b)\<close> returns true and \<open>None\<close> when it returns false.
\<close>

fun det :: "real list list \<Rightarrow> real" where
  "det [] = 1"
| "det (r # rs) =
     (\<Sum>j\<leftarrow>[0..<length r]. (- 1) ^ j * r ! j * det (map (\<lambda>row. take j row @ drop (Suc j) row) rs))"

type_synonym solver = "real list list \<Rightarrow> real list \<Rightarrow> real list option"

text \<open>
  An exact solver for square systems, by Cramer's rule; it stands for \<^verbatim>\<open>arma::solve\<close>
  wherever a concrete solver is needed.
\<close>

definition replace_col :: "nat \<Rightarrow> real list \<Rightarrow> real list list \<Rightarrow> real list list" where
  "replace_col j b W = map2 (\<lambda>row bi. row[j := bi]) W b"

definition cramer_solve :: solver where
  "cramer_solve W b =
     (if det W = 0 then None
      else Some (map (\<lambda>j. det (replace_col j b W) / det W) [0..<length W]))"

text \<open>
  What it means for \<open>x\<close> to solve the square system \<open>W\<cdot>x = c\<close>, and for a solver to
  be exact on one system: it returns the unique solution when there is one and fails
  otherwise.
\<close>

definition solves :: "real list list \<Rightarrow> real list \<Rightarrow> real list \<Rightarrow> bool" where
  "solves W c x \<longleftrightarrow> length x = length W \<and> map (\<lambda>row. dot row x) W = c"

definition unique_solution :: "real list list \<Rightarrow> real list \<Rightarrow> real list \<Rightarrow> bool" where
  "unique_solution W c x \<longleftrightarrow> solves W c x \<and> (\<forall>y. solves W c y \<longrightarrow> y = x)"

definition solver_exact_on :: "solver \<Rightarrow> real list list \<Rightarrow> real list \<Rightarrow> bool" where
  "solver_exact_on solve W c \<longleftrightarrow>
     (case solve W c of
        Some x \<Rightarrow> unique_solution W c x
      | None \<Rightarrow> \<not> (\<exists>x. unique_solution W c x))"

section \<open>PointAndSolution\<close>

text \<open>
  Modelled from the spec: \<^verbatim>\<open>PointAndSolution.h\<close> is not among the sources. A
  PointAndSolution is the triple of a point, a solution payload and the weights used to
  obtain it, with a null state; its dimension is its point's.
\<close>

record 's PointAndSolution =
  point :: Point
  solution :: 's
  weightsUsed :: "real list"
  PointAndSolution_null :: bool

definition PointAndSolution_isNull :: "'s PointAndSolution \<Rightarrow> bool" where
  "PointAndSolution_isNull v = PointAndSolution_null v"

definition PointAndSolution_dimension :: "'s PointAndSolution \<Rightarrow> nat" where
  "PointAndSolution_dimension v = dimension (point v)"

section \<open>Facet\<close>

record 's Facet =
  spaceDimension :: nat
  vertices :: "'s PointAndSolution list"
  normal :: "real list"
  localApproximationErrorUpperBound :: real
  isBoundaryFacet :: bool

text \<open>\<^verbatim>\<open>Facet<S>::getLocalApproximationErrorUpperBound\<close>.\<close>

definition getLocalApproximationErrorUpperBound :: "'s Facet \<Rightarrow> error + real" where
  "getLocalApproximationErrorUpperBound f =
     (if isBoundaryFacet f then Inl BoundaryFacetException
      else Inr (localApproximationErrorUpperBound f))"

text \<open>
  \<^verbatim>\<open>Facet<S>::computeLowerDistalPoint\<close>: the loop appends one row to \<open>W\<close> and one
  element to \<open>b\<close> per vertex, after asserting the size of the vertex's weight vector.
\<close>

fun fill_W_b ::
  "nat \<Rightarrow> 's PointAndSolution list \<Rightarrow> real list list \<Rightarrow> real list
   \<Rightarrow> error + (real list list \<times> real list)" where
  "fill_W_b d [] W b = Inr (W, b)"
| "fill_W_b d (v # vs) W b =
     (if length (weightsUsed v) \<noteq> d then Inl AssertionFailure
      else fill_W_b d vs (W @ [weightsUsed v])
             (b @ [dot (weightsUsed v) (coordinates (point v))]))"

definition computeLowerDistalPoint :: "solver \<Rightarrow> 's Facet \<Rightarrow> error + Point" where
  "computeLowerDistalPoint solve f =
     bind_err (fill_W_b (spaceDimension f) (vertices f) [] []) (\<lambda>(W, b).
       case solve W b of
         Some x \<Rightarrow> Inr (mkPoint x)
       | None \<Rightarrow> Inr nullPoint)"

text \<open>
  \<^verbatim>\<open>Facet<S>::ratioDistance\<close>. The loop accumulates the two sums \<^verbatim>\<open>dotProduct\<close> and
  \<^verbatim>\<open>facetOffset\<close> together.
\<close>

fun facet_loop ::
  "real list \<Rightarrow> Point \<Rightarrow> Point \<Rightarrow> nat list \<Rightarrow> real \<Rightarrow> real \<Rightarrow> error + (real \<times> real)" where
  "facet_loop n p q [] dotProduct facetOffset = Inr (dotProduct, facetOffset)"
| "facet_loop n p q (i # is) dotProduct facetOffset =
     bind_err (Point_at p i) (\<lambda>pi.
     bind_err (Point_at q i) (\<lambda>qi.
       facet_loop n p q is (dotProduct + n ! i * pi) (facetOffset + n ! i * qi)))"

definition Facet_ratioDistance :: "'s Facet \<Rightarrow> Point \<Rightarrow> error + real" where
  "Facet_ratioDistance f p =
     (if isNull p then Inl NullObjectException
      else if spaceDimension f \<noteq> dimension p then Inl DifferentDimensionsException
      else if \<not> isStrictlyPositive p then Inl NotStrictlyPositivePointException
      else if \<not> spaceDimension f > 0 then Inl AssertionFailure
      else
        let aPointOnTheFacet = point (vertices f ! 0) in
        bind_err (facet_loop (normal f) p aPointOnTheFacet [0..<spaceDimension f] 0 0)
          (\<lambda>(dotProduct, facetOffset).
            if dotProduct = facetOffset then Inr 0
            else if dotProduct = 0 then Inl InfiniteRatioDistanceException
            else Inr (max ((facetOffset - dotProduct) / dotProduct) 0)))"

text \<open>\<^verbatim>\<open>Facet<S>::hasAllNormalVectorElementsNonPositive\<close> and \<^verbatim>\<open>reverseNormalVectorSign\<close>.\<close>

fun nonpositive_loop :: "real list \<Rightarrow> nat list \<Rightarrow> bool" where
  "nonpositive_loop n [] = True"
| "nonpositive_loop n (i # is) = (if n ! i > 0 then False else nonpositive_loop n is)"

definition hasAllNormalVectorElementsNonPositive :: "'s Facet \<Rightarrow> bool" where
  "hasAllNormalVectorElementsNonPositive f = nonpositive_loop (normal f) [0..<spaceDimension f]"

fun reverse_loop :: "real list \<Rightarrow> nat list \<Rightarrow> real list" where
  "reverse_loop n [] = n"
| "reverse_loop n (i # is) = reverse_loop (n[i := - (n ! i)]) is"

definition reverseNormalVectorSign :: "'s Facet \<Rightarrow> 's Facet" where
  "reverseNormalVectorSign f = f\<lparr>normal := reverse_loop (normal f) [0..<spaceDimension f]\<rparr>"

text \<open>
  \<^verbatim>\<open>Facet<S>::computeAndSetFacetNormal\<close>: \<open>M\<close> has one row per vertex, the point's
  coordinates followed by a one. For each \<open>i\<close> the loop swaps column \<open>i\<close> with the
  last column, appends the determinant of all but the last column to the normal, and
  swaps back.
\<close>

definition n_cols :: "real list list \<Rightarrow> nat" where
  "n_cols M = (case M of [] \<Rightarrow> 0 | r # _ \<Rightarrow> length r)"

definition swap_cols :: "nat \<Rightarrow> nat \<Rightarrow> real list list \<Rightarrow> real list list" where
  "swap_cols i j M = map (\<lambda>row. row[i := row ! j, j := row ! i]) M"

definition cols_upto :: "nat \<Rightarrow> real list list \<Rightarrow> real list list" where
  "cols_upto k M = map (take (Suc k)) M"

fun normal_loop :: "real list list \<Rightarrow> nat list \<Rightarrow> real list \<Rightarrow> real list" where
  "normal_loop M [] nrm = nrm"
| "normal_loop M (i # is) nrm =
     (let M1 = swap_cols i (n_cols M - 1) M;
          nrm1 = nrm @ [det (cols_upto (n_cols M1 - 2) M1)];
          M2 = swap_cols i (n_cols M1 - 1) M1
      in normal_loop M2 is nrm1)"

definition insert_col_of_ones :: "real list list \<Rightarrow> real list list" where
  "insert_col_of_ones M = map (\<lambda>row. row @ [1]) M"

definition computeAndSetFacetNormal :: "bool \<Rightarrow> 's Facet \<Rightarrow> 's Facet" where
  "computeAndSetFacetNormal preferPositiveNormalVector f =
     (let M0 = map (\<lambda>v. coordinates (point v)) (vertices f);
          M = insert_col_of_ones M0;
          f1 = f\<lparr>normal := normal_loop M [0..<spaceDimension f] (normal f)\<rparr>
      in if preferPositiveNormalVector \<and> hasAllNormalVectorElementsNonPositive f1
         then reverseNormalVectorSign f1 else f1)"

text \<open>\<^verbatim>\<open>Facet<S>::computeAndSetLocalApproximationErrorUpperBoundAndIsBoundaryFacet\<close>.\<close>

definition computeAndSetLocalApproximationErrorUpperBoundAndIsBoundaryFacet ::
  "solver \<Rightarrow> 's Facet \<Rightarrow> error + 's Facet" where
  "computeAndSetLocalApproximationErrorUpperBoundAndIsBoundaryFacet solve f =
     bind_err (computeLowerDistalPoint solve f) (\<lambda>lowerDistalPoint.
       if \<not> isNull lowerDistalPoint then
         if isStrictlyPositive lowerDistalPoint then
           bind_err (Facet_ratioDistance (f\<lparr>isBoundaryFacet := False\<rparr>) lowerDistalPoint) (\<lambda>r.
             Inr (f\<lparr>isBoundaryFacet := False, localApproximationErrorUpperBound := r\<rparr>))
         else
           Inr (f\<lparr>isBoundaryFacet := True, localApproximationErrorUpperBound := - 1\<rparr>)
       else
         Inr (f\<lparr>isBoundaryFacet := True, localApproximationErrorUpperBound := - 2\<rparr>))"

text \<open>
  The checks both constructors make on every vertex, in order: not null (neither the
  vertex nor its point), then of the facet's dimension.
\<close>

fun check_vertices :: "nat \<Rightarrow> 's PointAndSolution list \<Rightarrow> error + unit" where
  "check_vertices d [] = Inr ()"
| "check_vertices d (v # vs) =
     (if PointAndSolution_isNull v \<or> isNull (point v) then Inl NullObjectException
      else if PointAndSolution_dimension v \<noteq> d then Inl DifferentDimensionsException
      else check_vertices d vs)"

text \<open>
  The compute-normal constructor. It reads the dimension off the first vertex; on an
  empty range the source dereferences the end iterator, which is counted here as a
  failed assertion. The fields not yet assigned hold \<open>0\<close> and \<open>False\<close>.
\<close>

definition Facet_of_vertices :: "solver \<Rightarrow> 's PointAndSolution list \<Rightarrow> bool \<Rightarrow> error + 's Facet" where
  "Facet_of_vertices solve vs preferPositiveNormalVector =
     (case vs of
        [] \<Rightarrow> Inl AssertionFailure
      | v # _ \<Rightarrow>
          let d = PointAndSolution_dimension v in
          if length vs \<noteq> d then Inl AssertionFailure
          else bind_err (check_vertices d vs) (\<lambda>_.
            let f = \<lparr>spaceDimension = d, vertices = vs, normal = [],
                     localApproximationErrorUpperBound = 0, isBoundaryFacet = False\<rparr>;
                f1 = computeAndSetFacetNormal preferPositiveNormalVector f
            in computeAndSetLocalApproximationErrorUpperBoundAndIsBoundaryFacet solve f1))"

text \<open>The supplied-normal constructor.\<close>

definition Facet_of_vertices_and_normal ::
  "solver \<Rightarrow> 's PointAndSolution list \<Rightarrow> real list \<Rightarrow> error + 's Facet" where
  "Facet_of_vertices_and_normal solve vs facetNormal =
     (let d = length facetNormal in
      if length vs \<noteq> d then Inl AssertionFailure
      else bind_err (check_vertices d vs) (\<lambda>_.
        let f = \<lparr>spaceDimension = d, vertices = vs, normal = facetNormal,
                 localApproximationErrorUpperBound = 0, isBoundaryFacet = False\<rparr>
        in computeAndSetLocalApproximationErrorUpperBoundAndIsBoundaryFacet solve f))"

section \<open>Predicates of the specification\<close>

text \<open>
  The two elements of a set of two distinct points of equal dimension, in iteration
  order.
\<close>

definition ordered_pair :: "Point \<Rightarrow> Point \<Rightarrow> Point list" where
  "ordered_pair p1 p2 =
     (if lex_less (coordinates p2) (coordinates p1) then [p2, p1] else [p1, p2])"

text \<open>
  Three points of a 3-dimensional space are collinear when the cross product of the
  two difference vectors out of the first point vanishes.
\<close>

definition collinear3 :: "real list \<Rightarrow> real list \<Rightarrow> real list \<Rightarrow> bool" where
  "collinear3 p q r \<longleftrightarrow>
     (let u = map2 (-) q p; v = map2 (-) r p
      in u ! 1 * v ! 2 - u ! 2 * v ! 1 = 0
       \<and> u ! 2 * v ! 0 - u ! 0 * v ! 2 = 0
       \<and> u ! 0 * v ! 1 - u ! 1 * v ! 0 = 0)"

text \<open>
  What the constructors establish about the shape of a facet: as many vertices and
  normal components as the space has dimensions, every vertex of that dimension.
\<close>

definition Facet_invariant :: "'s Facet \<Rightarrow> bool" where
  "Facet_invariant f \<longleftrightarrow>
     length (vertices f) = spaceDimension f
     \<and> length (normal f) = spaceDimension f
     \<and> list_all (\<lambda>v. PointAndSolution_dimension v = spaceDimension f) (vertices f)"

text \<open>
  The lower-bound hyperplane at vertex \<open>v\<^sub>i\<close> is \<open>{x. w\<^sub>i\<cdot>x = w\<^sub>i\<cdot>v\<^sub>i}\<close>. A point satisfies
  the lower-bound equations of a facet when it lies on all of them, and is the Lower
  Distal Point when it is the only such point. In matrix form the system is
  \<open>W\<cdot>x = c\<close>, row \<open>i\<close> of \<open>W\<close> being \<open>w\<^sub>i\<close> and \<open>c\<^sub>i = w\<^sub>i\<cdot>v\<^sub>i\<close>.
\<close>

definition lower_bound_equations :: "'s Facet \<Rightarrow> real list \<Rightarrow> bool" where
  "lower_bound_equations f x \<longleftrightarrow>
     length x = spaceDimension f
     \<and> list_all (\<lambda>v. dot (weightsUsed v) x = dot (weightsUsed v) (coordinates (point v)))
         (vertices f)"

definition is_LDP :: "'s Facet \<Rightarrow> real list \<Rightarrow> bool" where
  "is_LDP f x \<longleftrightarrow> lower_bound_equations f x \<and> (\<forall>y. lower_bound_equations f y \<longrightarrow> y = x)"

definition W_of :: "'s Facet \<Rightarrow> real list list" where
  "W_of f = map weightsUsed (vertices f)"

definition c_of :: "'s Facet \<Rightarrow> real list" where
  "c_of f = map (\<lambda>v. dot (weightsUsed v) (coordinates (point v))) (vertices f)"

text \<open>
  The outcome of \<^verbatim>\<open>computeAndSetLocalApproximationErrorUpperBoundAndIsBoundaryFacet\<close>, read
  off the facet's Lower Distal Point.
\<close>

definition bound_invariant :: "solver \<Rightarrow> 's Facet \<Rightarrow> bool" where
  "bound_invariant solve f \<longleftrightarrow>
     (case computeLowerDistalPoint solve f of
        Inl e \<Rightarrow> False
      | Inr ldp \<Rightarrow>
          (if isNull ldp then isBoundaryFacet f \<and> localApproximationErrorUpperBound f = - 2
           else if \<not> isStrictlyPositive ldp
             then isBoundaryFacet f \<and> localApproximationErrorUpperBound f = - 1
           else \<not> isBoundaryFacet f
                \<and> Facet_ratioDistance f ldp = Inr (localApproximationErrorUpperBound f)
                \<and> 0 \<le> localApproximationErrorUpperBound f))"

section \<open>Example data\<close>

text \<open>
  Two vertices of the biobjective scenario: \<open>(1, 5)\<close> found with weights \<open>(1, 0)\<close> and
  \<open>(5, 1)\<close> found with weights \<open>(0, 1)\<close>; the facet the compute-normal constructor
  builds from them; a facet on the same vertices whose normal is orthogonal to
  \<open>(1, 1)\<close>; and two vertices found with the same weights.
\<close>

definition ex_v1 :: "unit PointAndSolution" where
  "ex_v1 = \<lparr>point = mkPoint [1, 5], solution = (), weightsUsed = [1, 0],
            PointAndSolution_null = False\<rparr>"

definition ex_v2 :: "unit PointAndSolution" where
  "ex_v2 = \<lparr>point = mkPoint [5, 1], solution = (), weightsUsed = [0, 1],
            PointAndSolution_null = False\<rparr>"

definition ex_v3 :: "unit PointAndSolution" where
  "ex_v3 = \<lparr>point = mkPoint [1, 7], solution = (), weightsUsed = [1, 0],
            PointAndSolution_null = False\<rparr>"

definition ex_facet :: "unit Facet" where
  "ex_facet = \<lparr>spaceDimension = 2, vertices = [ex_v1, ex_v2], normal = [4, 4],
               localApproximationErrorUpperBound = 2, isBoundaryFacet = False\<rparr>"

definition ex_facet_skew :: "unit Facet" where
  "ex_facet_skew = \<lparr>spaceDimension = 2, vertices = [ex_v1, ex_v2], normal = [1, - 1],
               localApproximationErrorUpperBound = - 1, isBoundaryFacet = True\<rparr>"

definition ex_facet_tied :: "unit Facet" where
  "ex_facet_tied = \<lparr>spaceDimension = 2, vertices = [ex_v1, ex_v3], normal = [1, 0],
               localApproximationErrorUpperBound = - 2, isBoundaryFacet = True\<rparr>"




text \<open>
  Three collinear vertices \<open>(1, 1, 1)\<close>, \<open>(2, 2, 2)\<close>, \<open>(3, 3, 3)\<close> found with the three
  unit weight vectors, and the facet the compute-normal constructor builds from them.
\<close>

definition ex_c1 :: "unit PointAndSolution" where
  "ex_c1 = \<lparr>point = mkPoint [1, 1, 1], solution = (), weightsUsed = [1, 0, 0],
            PointAndSolution_null = False\<rparr>"

definition ex_c2 :: "unit PointAndSolution" where
  "ex_c2 = \<lparr>point = mkPoint [2, 2, 2], solution = (), weightsUsed = [0, 1, 0],
            PointAndSolution_null = False\<rparr>"

definition ex_c3 :: "unit PointAndSolution" where
  "ex_c3 = \<lparr>point = mkPoint [3, 3, 3], solution = (), weightsUsed = [0, 0, 1],
            PointAndSolution_null = False\<rparr>"

definition ex_collinear_facet :: "unit Facet" where
  "ex_collinear_facet = \<lparr>spaceDimension = 3, vertices = [ex_c1, ex_c2, ex_c3],
               normal = [0, 0, 0],
               localApproximationErrorUpperBound = 0, isBoundaryFacet = False\<rparr>"

section \<open>Auxiliary facts\<close>

lemma bind_err_simps [simp]:
  "bind_err (Inl e) f = Inl e" "bind_err (Inr x) f = f x"
  by (simp_all add: bind_err_def)

lemma length_2_list: "length xs = 2 \<Longrightarrow> \<exists>a b. xs = [a, b]"
  by (cases xs; cases "tl xs") auto

lemma length_3_list: "length xs = 3 \<Longrightarrow> \<exists>a b c. xs = [a, b, c]"
  by (cases xs; cases "tl xs"; cases "tl (tl xs)") auto

subsection \<open>Rounding to binary64\<close>

text \<open>
  \<open>round64\<close> on some known values: \<open>0.1\<close> is the double \<open>0x3FB999999999999A\<close>, a
  tie goes to the even significand, a double is left alone.
\<close>

lemma round64_examples:
  "round64 (1 / 10) = 3602879701896397 / 2 ^ 55"
  "round64 (2 ^ 53 + 1) = 2 ^ 53"
  "round64 (2 ^ 53 + 3) = 2 ^ 53 + 4"
  "round64 (- 3) = - 3"
  "round64 (11 / 40) = 4953959590107546 / 2 ^ 54"
  by code_simp+

lemma expo_lower:
  assumes "0 < a"
  shows "2 powi (expo a) \<le> a"
proof (cases "1 \<le> a")
  case True
  then have m: "0 < \<lfloor>a\<rfloor>" by linarith
  from bitlen_bounds [OF m] have "(2::int) ^ nat (bitlen \<lfloor>a\<rfloor> - 1) \<le> \<lfloor>a\<rfloor>" ..
  then have "(2::real) ^ nat (bitlen \<lfloor>a\<rfloor> - 1) \<le> of_int \<lfloor>a\<rfloor>"
    by (metis of_int_le_iff of_int_numeral of_int_power)
  also have "\<dots> \<le> a" by linarith
  finally have "(2::real) ^ nat (bitlen \<lfloor>a\<rfloor> - 1) \<le> a" .
  moreover from m have "0 \<le> bitlen \<lfloor>a\<rfloor> - 1"
    using bitlen_eq_zero_iff [of "\<lfloor>a\<rfloor>"] bitlen_nonneg [of "\<lfloor>a\<rfloor>"] by linarith
  ultimately show ?thesis using True by (simp add: expo_def power_int_def)
next
  case False
  let ?N = "\<lceil>1 / a\<rceil>"
  let ?k = "bitlen (?N - 1)"
  from False assms have "1 < 1 / a" by simp
  then have n: "0 < ?N - 1" by linarith
  from bitlen_bounds [OF n] have "?N - 1 < 2 ^ nat ?k" ..
  then have "?N \<le> 2 ^ nat ?k" by linarith
  then have "of_int ?N \<le> (2::real) ^ nat ?k"
    by (metis of_int_le_iff of_int_numeral of_int_power)
  moreover have "1 / a \<le> of_int ?N" by linarith
  ultimately have "1 / a \<le> 2 ^ nat ?k" by linarith
  with assms have "1 / 2 ^ nat ?k \<le> a"
    by (simp add: field_simps)
  moreover from n have "0 < ?k"
    using bitlen_eq_zero_iff [of "?N - 1"] bitlen_nonneg [of "?N - 1"] by linarith
  ultimately show ?thesis using False
    by (simp add: expo_def power_int_def inverse_eq_divide power_one_over)
qed

lemma round_half_even_near: "\<bar>of_int (round_half_even q) - q\<bar> \<le> 1 / 2"
  unfolding round_half_even_def Let_def by (auto simp: abs_le_iff; linarith)

lemma round_half_even_pos: "1 \<le> q \<Longrightarrow> 1 \<le> round_half_even q"
  unfolding round_half_even_def Let_def by (auto; linarith)

lemma scaled_ge:
  assumes "0 < a"
  shows "1 \<le> a / 2 powi (expo a - 52)"
proof -
  have "a / 2 powi (expo a - 52) = a / 2 powi (expo a) * 2 ^ 52"
    by (simp add: power_int_diff)
  moreover have "1 \<le> a / 2 powi (expo a)"
    using expo_lower [OF assms] by (simp add: field_simps)
  moreover have "(1::real) \<le> 2 ^ 52" by simp
  ultimately show ?thesis
    by (metis mult_le_cancel_left1 mult.commute zero_le_one order_trans less_eq_real_def)
qed

lemma round64_eq_0_iff: "round64 x = 0 \<longleftrightarrow> x = 0"
proof
  assume r: "round64 x = 0"
  show "x = 0"
  proof (rule ccontr)
    assume nz: "x \<noteq> 0"
    then have "0 < \<bar>x\<bar>" by simp
    from round_half_even_pos [OF scaled_ge [OF this]]
    have "of_int (round_half_even (\<bar>x\<bar> / 2 powi (expo \<bar>x\<bar> - 52))) \<noteq> (0::real)" by simp
    moreover have "2 powi (expo \<bar>x\<bar> - 52) \<noteq> (0::real)" by simp
    ultimately show False using r nz by (simp add: round64_def Let_def sgn_eq_0_iff)
  qed
qed (simp add: round64_def)

lemma round64_relative_error: "\<bar>round64 x - x\<bar> \<le> \<bar>x\<bar> / 2 ^ 53"
proof (cases "x = 0")
  case True
  then show ?thesis by (simp add: round64_def)
next
  case False
  let ?a = "\<bar>x\<bar>"
  let ?u = "2 powi (expo ?a - 52) :: real"
  let ?m = "of_int (round_half_even (?a / ?u)) :: real"
  have u: "0 < ?u" by simp
  have a: "0 < ?a" using False by simp
  have "\<bar>round64 x - x\<bar> = \<bar>sgn x * (?m * ?u - ?a)\<bar>"
    using False by (simp add: round64_def Let_def algebra_simps abs_sgn)
  also have "\<dots> = \<bar>?m * ?u - ?a\<bar>"
    using False by (simp add: abs_mult)
  also have "\<dots> = \<bar>?m - ?a / ?u\<bar> * ?u"
  proof -
    have "?m * ?u - ?a = (?m - ?a / ?u) * ?u"
      using u by (simp add: field_simps)
    then show ?thesis
      using u by (simp only: abs_mult abs_of_pos)
  qed
  also have "\<dots> \<le> 1 / 2 * ?u"
    using round_half_even_near [of "?a / ?u"] u by (intro mult_right_mono) simp_all
  also have "\<dots> = 2 powi (expo ?a) / 2 ^ 53"
    by (simp add: power_int_diff)
  also have "\<dots> \<le> ?a / 2 ^ 53"
    using expo_lower [OF a] by (simp add: divide_right_mono)
  finally show ?thesis .
qed

subsection \<open>The loops compute what they are meant to\<close>

lemma eq_loop_char:
  "\<forall>i\<in>set is. i < space_dimension g \<Longrightarrow>
   eq_loop h g is = Inr (\<forall>i\<in>set is. coefficients h ! i * h_b g = coefficients g ! i * h_b h)"
  by (induction "is") (auto simp: Hyperplane_at_def)

lemma Hyperplane_eq_char:
  "Hyperplane_eq h g = Inr (space_dimension h = space_dimension g \<and>
     (\<forall>i<space_dimension h. coefficients h ! i * h_b g = coefficients g ! i * h_b h))"
  by (auto simp: Hyperplane_eq_def eq_loop_char)

lemma parallel_loop_char:
  "\<forall>i\<in>set is. i < space_dimension g \<Longrightarrow>
   parallel_loop h g is =
     Inr (\<forall>i\<in>set is. coefficients h ! i * coefficients g ! 0 = coefficients g ! i * coefficients h ! 0)"
  by (induction "is") (auto simp: Hyperplane_at_def)

lemma isParallel_char:
  "isParallel h g = Inr (space_dimension h = space_dimension g \<and>
     (\<forall>i<space_dimension h.
        coefficients h ! i * coefficients g ! 0 = coefficients g ! i * coefficients h ! 0))"
  by (auto simp: isParallel_def parallel_loop_char)

lemma isParallel_2D:
  "space_dimension h = 2 \<Longrightarrow> space_dimension g = 2 \<Longrightarrow>
   isParallel h g =
     Inr (coefficients h ! 1 * coefficients g ! 0 = coefficients g ! 1 * coefficients h ! 0)"
  by (auto simp: isParallel_char less_Suc_eq numeral_2_eq_2)

lemma dot_loop_char:
  "\<forall>i\<in>set is. i < dimension p \<Longrightarrow>
   dot_loop a p is acc = Inr (acc + (\<Sum>i\<leftarrow>is. a ! i * coordinates p ! i))"
  by (induction "is" arbitrary: acc) (auto simp: Point_at_def)

lemma dot_nth:
  "length xs = length ys \<Longrightarrow> dot xs ys = (\<Sum>i\<leftarrow>[0..<length xs]. xs ! i * ys ! i)"
proof (induction xs ys rule: list_induct2)
  case Nil
  then show ?case by (simp add: dot_def)
next
  case (Cons x xs y ys)
  have "(\<Sum>i\<leftarrow>[0..<Suc (length xs)]. (x # xs) ! i * (y # ys) ! i)
        = x * y + (\<Sum>i\<leftarrow>[0..<length xs]. xs ! i * ys ! i)"
    by (simp add: map_upt_Suc del: upt_Suc)
  with Cons show ?case by (simp add: dot_def)
qed

lemma dot_loop_dot:
  "length a = dimension p \<Longrightarrow> dot_loop a p [0..<length a] 0 = Inr (dot a (coordinates p))"
  by (simp add: dot_loop_char dot_nth dimension_def)

lemma dot_loop_space_dimension:
  "space_dimension h = dimension p \<Longrightarrow>
   dot_loop (coefficients h) p [0..<space_dimension h] 0
     = Inr (dot (coefficients h) (coordinates p))"
  using dot_loop_dot [of "coefficients h" p] by (simp add: space_dimension_def)

lemma facet_loop_char:
  "\<forall>i\<in>set is. i < dimension p \<and> i < dimension q \<Longrightarrow>
   facet_loop n p q is a b =
     Inr (a + (\<Sum>i\<leftarrow>is. n ! i * coordinates p ! i), b + (\<Sum>i\<leftarrow>is. n ! i * coordinates q ! i))"
  by (induction "is" arbitrary: a b) (auto simp: Point_at_def)

lemma facet_loop_dot:
  assumes "length n = d" "dimension p = d" "dimension q = d"
  shows "facet_loop n p q [0..<d] 0 0 = Inr (dot n (coordinates p), dot n (coordinates q))"
  using assms by (simp add: facet_loop_char dot_nth dimension_def)

lemma fill_W_b_char:
  "list_all (\<lambda>v. length (weightsUsed v) = d) vs \<Longrightarrow>
   fill_W_b d vs W b =
     Inr (W @ map weightsUsed vs, b @ map (\<lambda>v. dot (weightsUsed v) (coordinates (point v))) vs)"
  by (induction vs arbitrary: W b) simp_all

lemma check_vertices_dims:
  "check_vertices d vs = Inr u \<Longrightarrow> list_all (\<lambda>v. PointAndSolution_dimension v = d) vs"
  by (induction vs) (auto split: if_splits)

lemma length_normal_loop: "length (normal_loop M is nrm) = length nrm + length is"
  by (induction M "is" nrm rule: normal_loop.induct) (simp_all add: Let_def)

lemma length_reverse_loop: "length (reverse_loop n is) = length n"
  by (induction n "is" rule: reverse_loop.induct) simp_all

subsection \<open>Equality and parallelism of hyperplanes\<close>

lemma Hyperplane_eq_refl: "Hyperplane_eq h h = Inr True"
  by (simp add: Hyperplane_eq_char)

lemma Hyperplane_eq_sym: "Hyperplane_eq h g = Hyperplane_eq g h"
  by (auto simp: Hyperplane_eq_char)

lemma isParallel_refl: "isParallel h h = Inr True"
  by (simp add: isParallel_char)

lemma isParallel_sym: "isParallel h g = isParallel g h"
  by (auto simp: isParallel_char)

subsection \<open>The line through two points\<close>

lemma lex_less_total:
  "length xs = length ys \<Longrightarrow> xs \<noteq> ys \<Longrightarrow> lex_less xs ys \<or> lex_less ys xs"
  by (induction xs ys rule: list_induct2) auto

lemma lex_less_asym: "lex_less xs ys \<Longrightarrow> \<not> lex_less ys xs"
  by (induction xs ys rule: lex_less.induct) auto

lemma set_of_two_points:
  assumes "dimension p1 = dimension p2" "\<not> Point_eq p1 p2"
  shows "bind_err (set_insert p1 []) (set_insert p2) = Inr (ordered_pair p1 p2)"
  using assms lex_less_total [of "coordinates p1" "coordinates p2"]
  by (auto simp: Point_less_def Point_eq_def dimension_def ordered_pair_def)

lemma set_of_range_two_points:
  assumes "dimension p1 = dimension p2" "\<not> Point_eq p1 p2"
  shows "set_of_range [p1, p2] [] = Inr (ordered_pair p1 p2)"
  using assms lex_less_total [of "coordinates p1" "coordinates p2"]
  by (auto simp: Point_less_def Point_eq_def dimension_def ordered_pair_def)

lemma ordered_pair_commute:
  assumes "dimension p1 = dimension p2" "\<not> Point_eq p1 p2"
  shows "ordered_pair p1 p2 = ordered_pair p2 p1"
  using assms lex_less_total [of "coordinates p1" "coordinates p2"]
    lex_less_asym [of "coordinates p1" "coordinates p2"]
  by (auto simp: Point_eq_def dimension_def ordered_pair_def)

lemma init_two_2D_points:
  assumes "dimension q1 = 2" "dimension q2 = 2"
  shows "\<exists>h. init [q1, q2] = Inr h"
  using assms by (auto simp: init_def Point_at_def Let_def)

lemma Hyperplane_of_two_points_init:
  assumes "dimension p1 = 2" "dimension p2 = 2" "\<not> Point_eq p1 p2"
  shows "Hyperplane_of_two_points p1 p2 = init (ordered_pair p1 p2)"
proof -
  have "bind_err (set_insert p1 []) (\<lambda>s. bind_err (set_insert p2 s) init)
        = bind_err (bind_err (set_insert p1 []) (set_insert p2)) init"
    by simp
  then show ?thesis
    using assms set_of_two_points [of p1 p2]
    by (simp add: Hyperplane_of_two_points_def del: set_insert.simps)
qed

lemma Hyperplane_of_two_points_succeeds:
  assumes "dimension p1 = 2" "dimension p2 = 2" "\<not> Point_eq p1 p2"
  shows "\<exists>h. Hyperplane_of_two_points p1 p2 = Inr h"
  using init_two_2D_points [OF assms(1,2)] init_two_2D_points [OF assms(2,1)]
  by (auto simp: Hyperplane_of_two_points_init [OF assms] ordered_pair_def)

text \<open>The two exceptions of the two-point constructor, in the order the code checks.\<close>

lemma Hyperplane_of_two_points_exceptions:
  "(Point_eq p1 p2 \<longrightarrow> Hyperplane_of_two_points p1 p2 = Inl SamePointsException)
   \<and> (\<not> Point_eq p1 p2 \<and> (dimension p1 \<noteq> 2 \<or> dimension p2 \<noteq> 2) \<longrightarrow>
        Hyperplane_of_two_points p1 p2 = Inl Not2DPointsException)"
  by (simp add: Hyperplane_of_two_points_def)

subsection \<open>The intersection of two lines\<close>


lemma parallel_loop_rnd_char:
  "\<forall>i\<in>set is. i < space_dimension g \<Longrightarrow>
   parallel_loop_rnd rnd h g is =
     Inr (\<forall>i\<in>set is. rnd (coefficients h ! i * coefficients g ! 0)
                         = rnd (coefficients g ! i * coefficients h ! 0))"
  by (induction "is") (auto simp: Hyperplane_at_def)

lemma isParallel_rnd_char:
  "isParallel_rnd rnd h g = Inr (space_dimension h = space_dimension g \<and>
     (\<forall>i<space_dimension h.
        rnd (coefficients h ! i * coefficients g ! 0)
        = rnd (coefficients g ! i * coefficients h ! 0)))"
  by (auto simp: isParallel_rnd_def parallel_loop_rnd_char)


lemma isParallel_rnd_2D:
  assumes "space_dimension h = 2" "space_dimension g = 2"
  shows "isParallel_rnd rnd h g =
     Inr (rnd (coefficients h ! 1 * coefficients g ! 0)
          = rnd (coefficients g ! 1 * coefficients h ! 0))"
  using assms by (auto simp: isParallel_rnd_char less_Suc_eq numeral_2_eq_2 mult.commute)



text \<open>
  On binary64, past the parallel test, the divisors of \<^verbatim>\<open>intersection\<close> are nonzero:
  two different doubles have a nonzero difference.
\<close>

lemma intersection_divisors_nonzero:
  assumes "space_dimension h = 2" "space_dimension g = 2"
    and "isParallel_rnd round64 h g = Inr False"
  shows "round64 (round64 (coefficients h ! 1 * coefficients g ! 0)
                  - round64 (coefficients h ! 0 * coefficients g ! 1)) \<noteq> 0"
    and "coefficients h ! 1 = 0 \<longrightarrow> coefficients g ! 1 \<noteq> 0"
proof -
  from assms have ne: "round64 (coefficients h ! 1 * coefficients g ! 0)
      \<noteq> round64 (coefficients g ! 1 * coefficients h ! 0)"
    by (simp add: isParallel_rnd_2D)
  then show "round64 (round64 (coefficients h ! 1 * coefficients g ! 0)
                  - round64 (coefficients h ! 0 * coefficients g ! 1)) \<noteq> 0"
    by (simp add: round64_eq_0_iff mult.commute)
  from ne show "coefficients h ! 1 = 0 \<longrightarrow> coefficients g ! 1 \<noteq> 0"
    by (auto simp: round64_eq_0_iff)
qed

subsection \<open>Facets\<close>

lemma computeLowerDistalPoint_cong:
  "spaceDimension f' = spaceDimension f \<Longrightarrow> vertices f' = vertices f \<Longrightarrow>
   computeLowerDistalPoint solve f' = computeLowerDistalPoint solve f"
  by (simp add: computeLowerDistalPoint_def)

lemma Facet_ratioDistance_cong:
  "spaceDimension f' = spaceDimension f \<Longrightarrow> vertices f' = vertices f \<Longrightarrow>
   normal f' = normal f \<Longrightarrow> Facet_ratioDistance f' p = Facet_ratioDistance f p"
  by (simp add: Facet_ratioDistance_def)

lemma Facet_ratioDistance_nonneg:
  "Facet_ratioDistance f p = Inr r \<Longrightarrow> 0 \<le> r"
  by (auto simp: Facet_ratioDistance_def bind_err_def Let_def
      split: if_splits sum.splits prod.splits)

lemma computeAndSet_bound_invariant:
  assumes "computeAndSetLocalApproximationErrorUpperBoundAndIsBoundaryFacet solve f = Inr f'"
  shows "bound_invariant solve f' \<and> spaceDimension f' = spaceDimension f
         \<and> vertices f' = vertices f \<and> normal f' = normal f"
proof -
  from assms obtain ldp where ldp: "computeLowerDistalPoint solve f = Inr ldp"
    by (cases "computeLowerDistalPoint solve f")
       (simp_all add: computeAndSetLocalApproximationErrorUpperBoundAndIsBoundaryFacet_def)
  have same: "spaceDimension f' = spaceDimension f \<and> vertices f' = vertices f
              \<and> normal f' = normal f"
    using assms ldp
    by (auto simp: computeAndSetLocalApproximationErrorUpperBoundAndIsBoundaryFacet_def
        bind_err_def split: if_splits sum.splits)
  then have ldp': "computeLowerDistalPoint solve f' = Inr ldp"
    using ldp computeLowerDistalPoint_cong [of f' f solve] by simp
  have rd: "Facet_ratioDistance f' ldp = Facet_ratioDistance (f\<lparr>isBoundaryFacet := False\<rparr>) ldp"
    using same by (intro Facet_ratioDistance_cong) simp_all
  show ?thesis
  proof (cases "isNull ldp")
    case True
    with assms ldp ldp' same show ?thesis
      by (auto simp: computeAndSetLocalApproximationErrorUpperBoundAndIsBoundaryFacet_def
          bound_invariant_def)
  next
    case False
    show ?thesis
    proof (cases "isStrictlyPositive ldp")
      case sp: False
      with False assms ldp ldp' same show ?thesis
        by (auto simp: computeAndSetLocalApproximationErrorUpperBoundAndIsBoundaryFacet_def
            bound_invariant_def)
    next
      case sp: True
      from assms ldp False sp obtain r where
        r: "Facet_ratioDistance (f\<lparr>isBoundaryFacet := False\<rparr>) ldp = Inr r"
        and f': "f' = f\<lparr>isBoundaryFacet := False, localApproximationErrorUpperBound := r\<rparr>"
        by (cases "Facet_ratioDistance (f\<lparr>isBoundaryFacet := False\<rparr>) ldp")
           (auto simp: computeAndSetLocalApproximationErrorUpperBoundAndIsBoundaryFacet_def)
      from r have "0 \<le> r" by (rule Facet_ratioDistance_nonneg)
      with False sp ldp' rd r f' same show ?thesis
        by (simp add: bound_invariant_def)
    qed
  qed
qed

lemma Facet_of_vertices_bound_invariant:
  "Facet_of_vertices solve vs pref = Inr f \<Longrightarrow> bound_invariant solve f"
  by (auto simp: Facet_of_vertices_def bind_err_def Let_def
      split: list.splits if_splits sum.splits dest: computeAndSet_bound_invariant)

lemma Facet_of_vertices_and_normal_bound_invariant:
  "Facet_of_vertices_and_normal solve vs nrm = Inr f \<Longrightarrow> bound_invariant solve f"
  by (auto simp: Facet_of_vertices_and_normal_def bind_err_def Let_def
      split: list.splits if_splits sum.splits dest: computeAndSet_bound_invariant)

lemma computeAndSetFacetNormal_shape:
  "spaceDimension (computeAndSetFacetNormal pref f) = spaceDimension f
   \<and> vertices (computeAndSetFacetNormal pref f) = vertices f
   \<and> length (normal (computeAndSetFacetNormal pref f))
       = length (normal f) + spaceDimension f"
  by (simp add: computeAndSetFacetNormal_def Let_def reverseNormalVectorSign_def
      length_normal_loop length_reverse_loop)

lemma Facet_of_vertices_invariant:
  assumes "Facet_of_vertices solve vs pref = Inr f"
  shows "Facet_invariant f \<and> vertices f = vs"
proof -
  from assms obtain v vs' where vs: "vs = v # vs'"
    by (cases vs) (simp_all add: Facet_of_vertices_def)
  let ?d = "PointAndSolution_dimension v"
  let ?f0 = "\<lparr>spaceDimension = ?d, vertices = vs, normal = [],
              localApproximationErrorUpperBound = 0, isBoundaryFacet = False\<rparr>"
  from assms vs have len: "length vs = ?d"
    by (auto simp: Facet_of_vertices_def Let_def split: if_splits)
  from assms vs len obtain u where chk: "check_vertices ?d vs = Inr u"
    by (cases "check_vertices ?d vs") (auto simp: Facet_of_vertices_def Let_def)
  from assms vs len chk have run:
    "computeAndSetLocalApproximationErrorUpperBoundAndIsBoundaryFacet solve
       (computeAndSetFacetNormal pref ?f0) = Inr f"
    by (auto simp: Facet_of_vertices_def Let_def)
  from computeAndSet_bound_invariant [OF run] computeAndSetFacetNormal_shape [of pref ?f0]
  have "spaceDimension f = ?d" "vertices f = vs" "length (normal f) = ?d"
    by simp_all
  with len check_vertices_dims [OF chk] show ?thesis
    by (simp add: Facet_invariant_def)
qed

lemma Facet_of_vertices_and_normal_invariant:
  assumes "Facet_of_vertices_and_normal solve vs nrm = Inr f"
  shows "Facet_invariant f \<and> vertices f = vs \<and> normal f = nrm"
proof -
  let ?d = "length nrm"
  let ?f0 = "\<lparr>spaceDimension = ?d, vertices = vs, normal = nrm,
              localApproximationErrorUpperBound = 0, isBoundaryFacet = False\<rparr>"
  from assms have len: "length vs = ?d"
    by (auto simp: Facet_of_vertices_and_normal_def Let_def split: if_splits)
  from assms len obtain u where chk: "check_vertices ?d vs = Inr u"
    by (cases "check_vertices ?d vs") (auto simp: Facet_of_vertices_and_normal_def Let_def)
  from assms len chk have run:
    "computeAndSetLocalApproximationErrorUpperBoundAndIsBoundaryFacet solve ?f0 = Inr f"
    by (auto simp: Facet_of_vertices_and_normal_def Let_def)
  from computeAndSet_bound_invariant [OF run]
  have "spaceDimension f = ?d" "vertices f = vs" "normal f = nrm"
    by simp_all
  with len check_vertices_dims [OF chk] show ?thesis
    by (simp add: Facet_invariant_def)
qed

lemma Facet_invariant_first_vertex:
  "Facet_invariant f \<Longrightarrow> 0 < spaceDimension f \<Longrightarrow>
   dimension (point (vertices f ! 0)) = spaceDimension f"
  by (auto simp: Facet_invariant_def list_all_length PointAndSolution_dimension_def)

lemma solves_lower_bound_equations:
  "length (vertices f) = spaceDimension f \<Longrightarrow>
   solves (W_of f) (c_of f) x \<longleftrightarrow> lower_bound_equations f x"
  by (auto simp: solves_def lower_bound_equations_def W_of_def c_of_def list_all_iff)

lemma unique_solution_is_LDP:
  "length (vertices f) = spaceDimension f \<Longrightarrow>
   unique_solution (W_of f) (c_of f) x \<longleftrightarrow> is_LDP f x"
  by (simp add: unique_solution_def is_LDP_def solves_lower_bound_equations)

lemma normal_of_three:
  "normal_loop [[x1, y1, z1, 1], [x2, y2, z2, 1], [x3, y3, z3, 1]] [0..<3] [] =
     [(y2 - y1) * (z3 - z1) - (z2 - z1) * (y3 - y1),
      (z2 - z1) * (x3 - x1) - (x2 - x1) * (z3 - z1),
      (x2 - x1) * (y3 - y1) - (y2 - y1) * (x3 - x1)]"
  by (simp add: upt_rec n_cols_def swap_cols_def cols_upto_def Let_def algebra_simps)

lemma collinear3_explicit:
  "collinear3 [x1, y1, z1] [x2, y2, z2] [x3, y3, z3] \<longleftrightarrow>
     (y2 - y1) * (z3 - z1) - (z2 - z1) * (y3 - y1) = 0
   \<and> (z2 - z1) * (x3 - x1) - (x2 - x1) * (z3 - z1) = 0
   \<and> (x2 - x1) * (y3 - y1) - (y2 - y1) * (x3 - x1) = 0"
  by (simp add: collinear3_def)

text \<open>
  Points on one parametrised line \<open>p + t\<cdot>v\<close> are collinear in the sense of
  \<open>collinear3\<close>.
\<close>

lemma points_on_a_line_collinear3:
  "collinear3 [px + s * vx, py + s * vy, pz + s * vz]
              [px + t * vx, py + t * vy, pz + t * vz]
              [px + u * vx, py + u * vy, pz + u * vz]"
  by (simp add: collinear3_explicit algebra_simps)

lemma collinear_normal_zero:
  assumes "dimension (point a) = 3" "dimension (point b) = 3" "dimension (point c) = 3"
    and "collinear3 (coordinates (point a)) (coordinates (point b)) (coordinates (point c))"
    and "spaceDimension f = 3" "vertices f = [a, b, c]" "normal f = []"
  shows "normal (computeAndSetFacetNormal pref f) = [0, 0, 0]"
proof -
  obtain x1 y1 z1 where a: "coordinates (point a) = [x1, y1, z1]"
    using assms(1) length_3_list unfolding dimension_def by blast
  obtain x2 y2 z2 where b: "coordinates (point b) = [x2, y2, z2]"
    using assms(2) length_3_list unfolding dimension_def by blast
  obtain x3 y3 z3 where c: "coordinates (point c) = [x3, y3, z3]"
    using assms(3) length_3_list unfolding dimension_def by blast
  have "normal_loop (insert_col_of_ones (map (\<lambda>v. coordinates (point v)) (vertices f)))
          [0..<spaceDimension f] (normal f) = [0, 0, 0]"
    using assms(4) unfolding assms(5-7) insert_col_of_ones_def
    by (simp only: list.map a b c append.simps normal_of_three collinear3_explicit)
  then show ?thesis
    by (simp add: computeAndSetFacetNormal_def Let_def reverseNormalVectorSign_def assms(5)
        upt_rec hasAllNormalVectorElementsNonPositive_def)
qed

lemma zero_normal_ratioDistance:
  "normal f = [0, 0, 0] \<Longrightarrow> spaceDimension f = 3 \<Longrightarrow> Facet_ratioDistance f p = Inr r
   \<Longrightarrow> r = 0"
  by (auto simp: Facet_ratioDistance_def bind_err_def upt_rec Let_def
      split: if_splits sum.splits)

subsection \<open>Cramer's rule is exact on 2\<times>2 systems\<close>

lemma det_2x2: "det [[a, b], [c, d]] = a * d - b * c"
  by (simp add: upt_rec)

lemma solves_2x2:
  "solves [[a, b], [c, d]] [e, f] x \<longleftrightarrow> (\<exists>u v. x = [u, v] \<and> a * u + b * v = e \<and> c * u + d * v = f)"
proof
  assume s: "solves [[a, b], [c, d]] [e, f] x"
  then have "length x = 2" by (simp add: solves_def)
  then obtain u v where "x = [u, v]" using length_2_list by blast
  with s show "\<exists>u v. x = [u, v] \<and> a * u + b * v = e \<and> c * u + d * v = f"
    by (simp add: solves_def dot_def)
next
  assume "\<exists>u v. x = [u, v] \<and> a * u + b * v = e \<and> c * u + d * v = f"
  then show "solves [[a, b], [c, d]] [e, f] x"
    by (auto simp: solves_def dot_def)
qed

lemma kernel_2x2:
  fixes a b c d :: real
  assumes "a * d - b * c = 0"
  shows "\<exists>k l. (k \<noteq> 0 \<or> l \<noteq> 0) \<and> a * k + b * l = 0 \<and> c * k + d * l = 0"
proof (cases "a = 0 \<and> b = 0")
  case False
  have "a * b + b * (- a) = 0" "c * b + d * (- a) = 0"
    using assms by (simp_all add: algebra_simps)
  with False show ?thesis by (intro exI [of _ b] exI [of _ "- a"]) auto
next
  case True
  show ?thesis
  proof (cases "c = 0 \<and> d = 0")
    case cd: True
    with True show ?thesis by (intro exI [of _ 1] exI [of _ 0]) simp
  next
    case cd: False
    have "c * d + d * (- c) = 0" by (simp add: algebra_simps)
    with True cd show ?thesis by (intro exI [of _ d] exI [of _ "- c"]) auto
  qed
qed

lemma cramer_solve_exact_2x2: "solver_exact_on cramer_solve [[a, b], [c, d]] [e, f]"
proof (cases "a * d - b * c = 0")
  case True
  then have none: "cramer_solve [[a, b], [c, d]] [e, f] = None"
    by (simp add: cramer_solve_def det_2x2)
  have "\<not> unique_solution [[a, b], [c, d]] [e, f] x" for x
  proof
    assume u: "unique_solution [[a, b], [c, d]] [e, f] x"
    then obtain u v where x: "x = [u, v]" and eqs: "a * u + b * v = e" "c * u + d * v = f"
      by (auto simp: unique_solution_def solves_2x2)
    from kernel_2x2 [OF True] obtain k l where
      kl: "k \<noteq> 0 \<or> l \<noteq> 0" "a * k + b * l = 0" "c * k + d * l = 0" by blast
    have "a * (u + k) + b * (v + l) = e" "c * (u + k) + d * (v + l) = f"
      using eqs kl(2,3) by (simp_all add: algebra_simps)
    then have "solves [[a, b], [c, d]] [e, f] [u + k, v + l]"
      by (simp add: solves_2x2)
    with u x have "[u + k, v + l] = [u, v]" by (simp add: unique_solution_def)
    with kl(1) show False by simp
  qed
  with none show ?thesis by (simp add: solver_exact_on_def)
next
  case False
  let ?D = "a * d - b * c"
  let ?x = "(e * d - b * f) / ?D" and ?y = "(a * f - e * c) / ?D"
  have some: "cramer_solve [[a, b], [c, d]] [e, f] = Some [?x, ?y]"
    using False by (simp add: cramer_solve_def det_2x2 replace_col_def upt_rec)
  have "a * ?x + b * ?y = (a * (e * d - b * f) + b * (a * f - e * c)) / ?D"
    by (simp add: add_divide_distrib)
  also have "a * (e * d - b * f) + b * (a * f - e * c) = e * ?D"
    by (simp add: algebra_simps)
  finally have sol1: "a * ?x + b * ?y = e" using False by simp
  have "c * ?x + d * ?y = (c * (e * d - b * f) + d * (a * f - e * c)) / ?D"
    by (simp add: add_divide_distrib)
  also have "c * (e * d - b * f) + d * (a * f - e * c) = f * ?D"
    by (simp add: algebra_simps)
  finally have sol2: "c * ?x + d * ?y = f" using False by simp
  note sol = sol1 sol2
  have uniq: "u = ?x \<and> v = ?y" if "a * u + b * v = e" "c * u + d * v = f" for u v
  proof -
    have "u * ?D = (a * u + b * v) * d - b * (c * u + d * v)"
      "v * ?D = a * (c * u + d * v) - (a * u + b * v) * c"
      by (simp_all add: algebra_simps)
    then have "u * ?D = e * d - b * f" "v * ?D = a * f - e * c"
      by (simp_all only: that)
    with False show ?thesis by (simp add: field_simps)
  qed
  have "unique_solution [[a, b], [c, d]] [e, f] [?x, ?y]"
    unfolding unique_solution_def solves_2x2 using sol uniq by auto
  with some show ?thesis by (simp add: solver_exact_on_def)
qed

lemma cramer_solve_exact_on_2D_facet:
  assumes "length (vertices f) = 2"
    and "list_all (\<lambda>v. length (weightsUsed v) = 2) (vertices f)"
  shows "solver_exact_on cramer_solve (W_of f) (c_of f)"
proof -
  from assms(1) obtain v w where vs: "vertices f = [v, w]"
    using length_2_list by blast
  with assms(2) obtain a b c d where "weightsUsed v = [a, b]" "weightsUsed w = [c, d]"
    using length_2_list [of "weightsUsed v"] length_2_list [of "weightsUsed w"] by auto
  with vs show ?thesis
    by (simp add: W_of_def c_of_def cramer_solve_exact_2x2)
qed


subsection \<open>The example data\<close>

lemma ex_facet_constructed:
  "Facet_of_vertices cramer_solve [ex_v1, ex_v2] True = Inr ex_facet"
proof -
  have d: "PointAndSolution_dimension ex_v1 = 2"
    by code_simp
  have chk: "check_vertices 2 [ex_v1, ex_v2] = Inr ()"
    by code_simp
  have n: "computeAndSetFacetNormal True
             \<lparr>spaceDimension = 2, vertices = [ex_v1, ex_v2], normal = [],
              localApproximationErrorUpperBound = 0, isBoundaryFacet = False\<rparr>
           = ex_facet\<lparr>localApproximationErrorUpperBound := 0\<rparr>"
    by code_simp
  have ldp: "computeLowerDistalPoint cramer_solve (ex_facet\<lparr>localApproximationErrorUpperBound := 0\<rparr>)
             = Inr (mkPoint [1, 1])"
    by code_simp
  have sp: "isStrictlyPositive (mkPoint [1, 1])" "\<not> isNull (mkPoint [1, 1])"
    by code_simp+
  have rd: "Facet_ratioDistance
              (ex_facet\<lparr>localApproximationErrorUpperBound := 0, isBoundaryFacet := False\<rparr>)
              (mkPoint [1, 1]) = Inr 2"
    by code_simp
  have fin: "ex_facet\<lparr>localApproximationErrorUpperBound := 0, isBoundaryFacet := False,
                      localApproximationErrorUpperBound := 2\<rparr> = ex_facet"
    by (simp add: ex_facet_def)
  have "Facet_of_vertices cramer_solve [ex_v1, ex_v2] True
        = computeAndSetLocalApproximationErrorUpperBoundAndIsBoundaryFacet cramer_solve
            (ex_facet\<lparr>localApproximationErrorUpperBound := 0\<rparr>)"
    by (simp add: Facet_of_vertices_def Let_def d chk n del: check_vertices.simps)
  also have "\<dots> = Inr ex_facet"
    unfolding computeAndSetLocalApproximationErrorUpperBoundAndIsBoundaryFacet_def ldp
    by (simp only: bind_err_simps sp rd fin if_True not_False_eq_True)
  finally show ?thesis .
qed

lemma ex_collinear_facet_constructed:
  "Facet_of_vertices cramer_solve [ex_c1, ex_c2, ex_c3] True = Inr ex_collinear_facet"
proof -
  have d: "PointAndSolution_dimension ex_c1 = 3"
    by code_simp
  have chk: "check_vertices 3 [ex_c1, ex_c2, ex_c3] = Inr ()"
    by code_simp
  have n: "computeAndSetFacetNormal True
             \<lparr>spaceDimension = 3, vertices = [ex_c1, ex_c2, ex_c3], normal = [],
              localApproximationErrorUpperBound = 0, isBoundaryFacet = False\<rparr>
           = ex_collinear_facet"
    by code_simp
  have ldp: "computeLowerDistalPoint cramer_solve ex_collinear_facet = Inr (mkPoint [1, 2, 3])"
    by code_simp
  have sp: "isStrictlyPositive (mkPoint [1, 2, 3])" "\<not> isNull (mkPoint [1, 2, 3])"
    by code_simp+
  have rd: "Facet_ratioDistance (ex_collinear_facet\<lparr>isBoundaryFacet := False\<rparr>)
              (mkPoint [1, 2, 3]) = Inr 0"
    by code_simp
  have fin: "ex_collinear_facet\<lparr>isBoundaryFacet := False,
               localApproximationErrorUpperBound := 0\<rparr> = ex_collinear_facet"
    by (simp add: ex_collinear_facet_def)
  have "Facet_of_vertices cramer_solve [ex_c1, ex_c2, ex_c3] True
        = computeAndSetLocalApproximationErrorUpperBoundAndIsBoundaryFacet cramer_solve
            ex_collinear_facet"
    by (simp add: Facet_of_vertices_def Let_def d chk n del: check_vertices.simps)
  also have "\<dots> = Inr ex_collinear_facet"
    unfolding computeAndSetLocalApproximationErrorUpperBoundAndIsBoundaryFacet_def ldp
    by (simp only: bind_err_simps sp rd fin if_True not_False_eq_True)
  finally show ?thesis .
qed

lemma ex_facet_tied_constructed:
  "Facet_of_vertices_and_normal cramer_solve [ex_v1, ex_v3] [1, 0] = Inr ex_facet_tied"
proof -
  let ?f0 = "\<lparr>spaceDimension = 2, vertices = [ex_v1, ex_v3], normal = [1, 0],
              localApproximationErrorUpperBound = 0, isBoundaryFacet = False\<rparr>"
  have two: "Suc (Suc 0) = 2"
    by simp
  have chk: "check_vertices 2 [ex_v1, ex_v3] = Inr ()"
    by code_simp
  have ldp: "computeLowerDistalPoint cramer_solve ?f0 = Inr nullPoint"
    by code_simp
  have null: "isNull nullPoint"
    by (simp add: isNull_def nullPoint_def)
  have "Facet_of_vertices_and_normal cramer_solve [ex_v1, ex_v3] [1, 0]
        = computeAndSetLocalApproximationErrorUpperBoundAndIsBoundaryFacet cramer_solve ?f0"
    unfolding Facet_of_vertices_and_normal_def Let_def
    by (simp add: two chk del: check_vertices.simps)
  also have "\<dots> = Inr ex_facet_tied"
    unfolding computeAndSetLocalApproximationErrorUpperBoundAndIsBoundaryFacet_def ldp
    by (simp add: null ex_facet_tied_def)
  finally show ?thesis .
qed

lemma ex_facet_LDP: "is_LDP ex_facet [1, 1]"
  unfolding is_LDP_def
proof (intro conjI allI impI)
  show "lower_bound_equations ex_facet [1, 1]"
    by (simp add: lower_bound_equations_def ex_facet_def ex_v1_def ex_v2_def dot_def
        mkPoint_def)
next
  fix y
  assume y: "lower_bound_equations ex_facet y"
  then have "length y = 2"
    by (simp add: lower_bound_equations_def ex_facet_def)
  then obtain a b where ab: "y = [a, b]" using length_2_list by blast
  from y have "a = 1 \<and> b = 1"
    unfolding ab
    by (simp add: lower_bound_equations_def ex_facet_def ex_v1_def ex_v2_def dot_def
        mkPoint_def)
  with ab show "y = [1, 1]" by simp
qed

lemma ex_facet_tied_no_LDP: "\<not> (\<exists>x. is_LDP ex_facet_tied x)"
proof
  assume "\<exists>x. is_LDP ex_facet_tied x"
  then obtain x where x: "is_LDP ex_facet_tied x" ..
  then have "length x = 2"
    by (simp add: is_LDP_def lower_bound_equations_def ex_facet_tied_def)
  then obtain a b where ab: "x = [a, b]" using length_2_list by blast
  from x ab have "lower_bound_equations ex_facet_tied [a, b + 1]"
    by (simp add: is_LDP_def lower_bound_equations_def ex_facet_tied_def ex_v1_def ex_v3_def
        dot_def mkPoint_def)
  with x ab have "[a, b + 1] = [a, b]" by (auto simp: is_LDP_def)
  then show False by simp
qed

lemma ex_facet_exact: "solver_exact_on cramer_solve (W_of ex_facet) (c_of ex_facet)"
proof -
  have "cramer_solve (W_of ex_facet) (c_of ex_facet) = Some [1, 1]"
    by code_simp
  moreover have "unique_solution (W_of ex_facet) (c_of ex_facet) [1, 1]"
    using ex_facet_LDP by (simp add: unique_solution_is_LDP ex_facet_def)
  ultimately show ?thesis by (simp add: solver_exact_on_def)
qed

lemma ex_facet_tied_exact:
  "solver_exact_on cramer_solve (W_of ex_facet_tied) (c_of ex_facet_tied)"
proof -
  have "cramer_solve (W_of ex_facet_tied) (c_of ex_facet_tied) = None"
    by code_simp
  moreover have "\<not> (\<exists>x. unique_solution (W_of ex_facet_tied) (c_of ex_facet_tied) x)"
    using ex_facet_tied_no_LDP by (simp add: unique_solution_is_LDP ex_facet_tied_def)
  ultimately show ?thesis by (simp add: solver_exact_on_def)
qed

subsection \<open>The lower-bound system of a facet\<close>

text \<open>
  What \<^verbatim>\<open>computeLowerDistalPoint\<close> itself contributes: it hands \<^verbatim>\<open>arma::solve\<close> the
  system \<open>W\<cdot>x = c\<close> whose row \<open>i\<close> is \<open>w\<^sub>i\<close> and whose \<open>c\<^sub>i\<close> is \<open>w\<^sub>i\<cdot>v\<^sub>i\<close>, and wraps the
  answer. Whether the answer is the unique solution is the solver's affair: the lemma
  takes it as an assumption and says nothing of Armadillo.
\<close>

lemma computeLowerDistalPoint_with_exact_solver:
  assumes len: "length (vertices f) = spaceDimension f"
    and wts: "list_all (\<lambda>v. length (weightsUsed v) = spaceDimension f) (vertices f)"
    and exact: "solver_exact_on solve (W_of f) (c_of f)"
  shows "(is_LDP f x \<longrightarrow> computeLowerDistalPoint solve f = Inr (mkPoint x))
       \<and> (\<not> (\<exists>y. is_LDP f y) \<longrightarrow>
            computeLowerDistalPoint solve f = Inr nullPoint \<and> isNull nullPoint)"
proof -
  have run: "computeLowerDistalPoint solve f =
      (case solve (W_of f) (c_of f) of Some y \<Rightarrow> Inr (mkPoint y) | None \<Rightarrow> Inr nullPoint)"
    using wts by (simp add: computeLowerDistalPoint_def fill_W_b_char W_of_def c_of_def)
  have null: "isNull nullPoint"
    by (simp add: isNull_def nullPoint_def)
  show ?thesis
  proof (cases "solve (W_of f) (c_of f)")
    case None
    with exact have "\<not> (\<exists>y. is_LDP f y)"
      by (simp add: solver_exact_on_def unique_solution_is_LDP [OF len])
    with None run null show ?thesis by simp
  next
    case (Some y)
    with exact have y: "is_LDP f y"
      by (simp add: solver_exact_on_def unique_solution_is_LDP [OF len])
    then have "is_LDP f x \<longrightarrow> x = y" by (auto simp: is_LDP_def)
    with Some run y show ?thesis by auto
  qed
qed

subsection \<open>Ratio distance from a point to a hyperplane\<close>

text \<open>
  Away from a vanishing inner product \<^verbatim>\<open>Hyperplane::ratioDistance\<close> computes
  \<open>max(0, (b - a\<cdot>p) / (a\<cdot>p))\<close>, and it refuses a point of another dimension.
\<close>

lemma Hyperplane_ratioDistance_regular:
  "(space_dimension h \<noteq> dimension p \<longrightarrow> ratioDistance h p = Inl DifferentDimensionsException)
   \<and> (space_dimension h = dimension p \<and> dot (coefficients h) (coordinates p) \<noteq> 0 \<longrightarrow>
        ratioDistance h p =
          Inr (Finite (max 0 ((h_b h - dot (coefficients h) (coordinates p))
                              / dot (coefficients h) (coordinates p)))))"
proof (cases "space_dimension h = dimension p")
  case False
  then show ?thesis by (simp add: ratioDistance_def)
next
  case True
  let ?ap = "dot (coefficients h) (coordinates p)"
  have "ratioDistance h p = Inr (std_max (ddiv (h_b h - ?ap) ?ap) (Finite 0))"
    unfolding ratioDistance_def dot_loop_space_dimension [OF True] using True by simp
  then show ?thesis
    using True by (auto simp: ddiv_def std_max_def max_def)
qed

section \<open>The claims\<close>

subsection \<open>C1: bound and boundary flag of a constructed facet\<close>

text \<open>
  C1. For every facet that either constructor returns, the Lower Distal Point
  computation does not fail, and: the facet is not a boundary facet if and only if the
  Lower Distal Point exists (is not null) and is strictly positive; when it is not a
  boundary facet the stored bound is the ratio distance of the Lower Distal Point and is
  nonnegative; when the Lower Distal Point exists but is not strictly positive the stored
  bound is \<open>-1\<close>; when it does not exist the stored bound is \<open>-2\<close>; and
  \<^verbatim>\<open>getLocalApproximationErrorUpperBound\<close> throws BoundaryFacetException exactly when the
  facet is a boundary facet.
\<close>

theorem constructed_facet_bound_and_boundary_flag:
  assumes "Facet_of_vertices solve vs pref = Inr f
           \<or> Facet_of_vertices_and_normal solve vs nrm = Inr f"
  shows "\<exists>ldp. computeLowerDistalPoint solve f = Inr ldp
     \<and> (\<not> isBoundaryFacet f \<longleftrightarrow> \<not> isNull ldp \<and> isStrictlyPositive ldp)
     \<and> (\<not> isBoundaryFacet f \<longrightarrow>
          Facet_ratioDistance f ldp = Inr (localApproximationErrorUpperBound f)
          \<and> 0 \<le> localApproximationErrorUpperBound f)
     \<and> (\<not> isNull ldp \<and> \<not> isStrictlyPositive ldp \<longrightarrow>
          localApproximationErrorUpperBound f = - 1)
     \<and> (isNull ldp \<longrightarrow> localApproximationErrorUpperBound f = - 2)
     \<and> (getLocalApproximationErrorUpperBound f = Inl BoundaryFacetException
          \<longleftrightarrow> isBoundaryFacet f)"
proof -
  from assms have "bound_invariant solve f"
    using Facet_of_vertices_bound_invariant Facet_of_vertices_and_normal_bound_invariant
    by blast
  then show ?thesis
    by (auto simp: bound_invariant_def getLocalApproximationErrorUpperBound_def
        split: sum.splits if_splits)
qed

text \<open>
  The compute-normal constructor on \<open>(1, 5)\<close> and \<open>(5, 1)\<close>: the Lower Distal Point is
  \<open>(1, 1)\<close>, the facet is not a boundary facet and its bound is \<open>2\<close>. The
  supplied-normal constructor on two vertices found with the same weights: there is no
  Lower Distal Point, the facet is a boundary facet and its bound is \<open>-2\<close>.
\<close>

theorem constructed_facet_bound_and_boundary_flag_witness:
  "Facet_of_vertices cramer_solve [ex_v1, ex_v2] True = Inr ex_facet
   \<and> computeLowerDistalPoint cramer_solve ex_facet = Inr (mkPoint [1, 1])
   \<and> \<not> isBoundaryFacet ex_facet
   \<and> Facet_ratioDistance ex_facet (mkPoint [1, 1]) = Inr 2
   \<and> getLocalApproximationErrorUpperBound ex_facet = Inr 2
   \<and> Facet_of_vertices_and_normal cramer_solve [ex_v1, ex_v3] [1, 0] = Inr ex_facet_tied
   \<and> computeLowerDistalPoint cramer_solve ex_facet_tied = Inr nullPoint
   \<and> isBoundaryFacet ex_facet_tied
   \<and> localApproximationErrorUpperBound ex_facet_tied = - 2
   \<and> getLocalApproximationErrorUpperBound ex_facet_tied = Inl BoundaryFacetException"
proof -
  have ldp: "computeLowerDistalPoint cramer_solve ex_facet = Inr (mkPoint [1, 1])"
    by code_simp
  have flag: "\<not> isBoundaryFacet ex_facet"
    and bound: "localApproximationErrorUpperBound ex_facet = 2"
    by (simp_all add: ex_facet_def)
  have ldp': "computeLowerDistalPoint cramer_solve ex_facet_tied = Inr nullPoint"
    by code_simp
  have null: "isNull nullPoint"
    by (simp add: isNull_def nullPoint_def)
  from constructed_facet_bound_and_boundary_flag
    [where solve = cramer_solve and vs = "[ex_v1, ex_v2]" and pref = True and f = ex_facet
       and nrm = "[]"]
    constructed_facet_bound_and_boundary_flag
    [where solve = cramer_solve and vs = "[ex_v1, ex_v3]" and pref = True
       and f = ex_facet_tied and nrm = "[1, 0]"]
    ex_facet_constructed ex_facet_tied_constructed ldp flag bound ldp' null
  show ?thesis
    by (simp add: getLocalApproximationErrorUpperBound_def)
qed

subsection \<open>C3: ratio distance from a point to a hyperplane\<close>

text \<open>
  C3. The specification has \<^verbatim>\<open>Hyperplane::ratioDistance(p)\<close> yield \<open>+\<infinity>\<close> (or an
  infinite-distance error) whenever \<open>a\<cdot>p = 0\<close> and \<open>a\<cdot>p \<noteq> b\<close>. The code does not: for
  the line \<open>x - y = -4\<close> and the point \<open>(1, 1)\<close>, of the same dimension and with
  \<open>a\<cdot>p = 0 \<noteq> b\<close>, the quotient is \<open>-4 / 0 = -\<infinity>\<close> and \<^verbatim>\<open>std::max\<close> of it and \<open>0.0\<close>
  is \<open>0\<close>. \<^verbatim>\<open>Facet<S>::ratioDistance\<close>, which computes the same distance with a guard,
  throws InfiniteRatioDistanceException for the same normal \<open>(1, -1)\<close>, offset \<open>-4\<close>
  and point.
\<close>

theorem Hyperplane_ratioDistance_misses_infinite_distance:
  "space_dimension (mkHyperplane [1, - 1] (- 4)) = dimension (mkPoint [1, 1])
   \<and> dot (coefficients (mkHyperplane [1, - 1] (- 4))) (coordinates (mkPoint [1, 1])) = 0
   \<and> h_b (mkHyperplane [1, - 1] (- 4)) = - 4
   \<and> ratioDistance (mkHyperplane [1, - 1] (- 4)) (mkPoint [1, 1]) = Inr (Finite 0)
   \<and> normal ex_facet_skew = [1, - 1]
   \<and> dot (normal ex_facet_skew) (coordinates (point (vertices ex_facet_skew ! 0))) = - 4
   \<and> Facet_ratioDistance ex_facet_skew (mkPoint [1, 1]) = Inl InfiniteRatioDistanceException"
  by (simp add: ratioDistance_def mkHyperplane_def mkPoint_def space_dimension_def dimension_def
      dot_def Point_at_def upt_rec ddiv_def std_max_def ex_facet_skew_def ex_v1_def
      Facet_ratioDistance_def isNull_def isStrictlyPositive_def)

subsection \<open>C4: ratio distance from a point to a facet\<close>

text \<open>
  C4. For every facet of positive dimension that satisfies the constructors' invariant,
  with normal \<open>n\<close> and offset \<open>n\<cdot>v\<^sub>0\<close> from its first vertex, and every Point \<open>p\<close>:
  \<^verbatim>\<open>Facet<S>::ratioDistance(p)\<close> throws NullObjectException if \<open>p\<close> is null; otherwise
  DifferentDimensionsException if the dimensions differ; otherwise
  NotStrictlyPositivePointException if \<open>p\<close> is not strictly positive; otherwise
  InfiniteRatioDistanceException exactly when \<open>n\<cdot>p = 0\<close> and \<open>n\<cdot>p\<close> differs from the
  offset; otherwise it returns \<open>0\<close> when \<open>n\<cdot>p\<close> equals the offset and
  \<open>max(0, (offset - n\<cdot>p) / (n\<cdot>p))\<close> when it does not.
\<close>

theorem Facet_ratioDistance_cases:
  assumes inv: "Facet_invariant f" and pos: "0 < spaceDimension f"
  shows "(isNull p \<longrightarrow> Facet_ratioDistance f p = Inl NullObjectException)
     \<and> (\<not> isNull p \<and> dimension p \<noteq> spaceDimension f \<longrightarrow>
          Facet_ratioDistance f p = Inl DifferentDimensionsException)
     \<and> (\<not> isNull p \<and> dimension p = spaceDimension f \<and> \<not> isStrictlyPositive p \<longrightarrow>
          Facet_ratioDistance f p = Inl NotStrictlyPositivePointException)
     \<and> (\<not> isNull p \<and> dimension p = spaceDimension f \<and> isStrictlyPositive p \<longrightarrow>
          (let np = dot (normal f) (coordinates p);
               offset = dot (normal f) (coordinates (point (vertices f ! 0)))
           in (Facet_ratioDistance f p = Inl InfiniteRatioDistanceException
                 \<longleftrightarrow> np = 0 \<and> np \<noteq> offset)
            \<and> (np = offset \<longrightarrow> Facet_ratioDistance f p = Inr 0)
            \<and> (np \<noteq> 0 \<and> np \<noteq> offset \<longrightarrow>
                 Facet_ratioDistance f p = Inr (max 0 ((offset - np) / np)))))"
proof -
  have nrm: "length (normal f) = spaceDimension f"
    using inv by (simp add: Facet_invariant_def)
  have loop: "facet_loop (normal f) p (point (vertices f ! 0)) [0..<spaceDimension f] 0 0
      = Inr (dot (normal f) (coordinates p),
             dot (normal f) (coordinates (point (vertices f ! 0))))"
    if "dimension p = spaceDimension f"
    using facet_loop_dot [OF nrm that Facet_invariant_first_vertex [OF inv pos]] .
  show ?thesis
    using pos loop by (auto simp: Facet_ratioDistance_def Let_def max.commute)
qed

text \<open>
  On the facet through \<open>(1, 5)\<close> and \<open>(5, 1)\<close> with normal \<open>(4, 4)\<close> the point \<open>(1, 1)\<close>
  has ratio distance \<open>(24 - 8) / 8 = 2\<close>; with the normal \<open>(1, -1)\<close> the same point has
  \<open>n\<cdot>p = 0\<close> against the offset \<open>-4\<close>; a null point is refused.
\<close>

theorem Facet_ratioDistance_cases_witness:
  "Facet_invariant ex_facet \<and> 0 < spaceDimension ex_facet
   \<and> \<not> isNull (mkPoint [1, 1]) \<and> dimension (mkPoint [1, 1]) = spaceDimension ex_facet
   \<and> isStrictlyPositive (mkPoint [1, 1])
   \<and> Facet_ratioDistance ex_facet (mkPoint [1, 1]) = Inr 2
   \<and> Facet_invariant ex_facet_skew \<and> 0 < spaceDimension ex_facet_skew
   \<and> Facet_ratioDistance ex_facet_skew (mkPoint [1, 1]) = Inl InfiniteRatioDistanceException
   \<and> isNull nullPoint
   \<and> Facet_ratioDistance ex_facet nullPoint = Inl NullObjectException"
proof -
  have i1: "Facet_invariant ex_facet" and p1: "0 < spaceDimension ex_facet"
    and i2: "Facet_invariant ex_facet_skew" and p2: "0 < spaceDimension ex_facet_skew"
    by (simp_all add: Facet_invariant_def ex_facet_def ex_facet_skew_def ex_v1_def ex_v2_def
        PointAndSolution_dimension_def dimension_def mkPoint_def)
  have pt: "\<not> isNull (mkPoint [1, 1])" "dimension (mkPoint [1, 1]) = spaceDimension ex_facet"
    "dimension (mkPoint [1, 1]) = spaceDimension ex_facet_skew"
    "isStrictlyPositive (mkPoint [1, 1])" "isNull nullPoint"
    by (simp_all add: isNull_def mkPoint_def nullPoint_def dimension_def ex_facet_def
        ex_facet_skew_def isStrictlyPositive_def)
  have dots: "dot (normal ex_facet) (coordinates (mkPoint [1, 1])) = 8"
    "dot (normal ex_facet) (coordinates (point (vertices ex_facet ! 0))) = 24"
    "dot (normal ex_facet_skew) (coordinates (mkPoint [1, 1])) = 0"
    "dot (normal ex_facet_skew) (coordinates (point (vertices ex_facet_skew ! 0))) = - 4"
    by (simp_all add: dot_def ex_facet_def ex_facet_skew_def ex_v1_def mkPoint_def)
  from Facet_ratioDistance_cases [OF i1 p1, of "mkPoint [1, 1]"]
    Facet_ratioDistance_cases [OF i2 p2, of "mkPoint [1, 1]"]
    Facet_ratioDistance_cases [OF i1 p1, of nullPoint]
    i1 p1 i2 p2 pt
  show ?thesis
    by (simp add: Let_def dots)
qed

subsection \<open>C5: a facet on three collinear points\<close>

text \<open>
  C5, in the form that holds of the code. For every 3-dimensional facet that the compute-normal constructor
  returns for three vertices whose points are collinear, the normal vector is all
  zeros. The boundary flag does not depend on the normal: the facet is a boundary facet
  exactly when its Lower Distal Point does not exist or is not strictly positive, and
  when it is not a boundary facet its bound is \<open>0\<close>.
\<close>

theorem collinear_facet_has_zero_normal:
  assumes ok: "Facet_of_vertices solve [a, b, c] pref = Inr f"
    and col: "collinear3 (coordinates (point a)) (coordinates (point b)) (coordinates (point c))"
  shows "normal f = [0, 0, 0]
     \<and> (\<exists>ldp. computeLowerDistalPoint solve f = Inr ldp
           \<and> (isBoundaryFacet f \<longleftrightarrow> isNull ldp \<or> \<not> isStrictlyPositive ldp))
     \<and> (\<not> isBoundaryFacet f \<longrightarrow> localApproximationErrorUpperBound f = 0)"
proof -
  let ?f0 = "\<lparr>spaceDimension = 3, vertices = [a, b, c], normal = [],
              localApproximationErrorUpperBound = 0, isBoundaryFacet = False\<rparr>"
  from ok have d: "PointAndSolution_dimension a = 3"
    by (auto simp: Facet_of_vertices_def Let_def split: if_splits)
  from ok d obtain u where "check_vertices 3 [a, b, c] = Inr u"
    by (cases "check_vertices 3 [a, b, c]") (auto simp: Facet_of_vertices_def Let_def)
  from check_vertices_dims [OF this]
  have dims: "dimension (point a) = 3" "dimension (point b) = 3" "dimension (point c) = 3"
    by (simp_all add: PointAndSolution_dimension_def)
  from ok d have run:
    "computeAndSetLocalApproximationErrorUpperBoundAndIsBoundaryFacet solve
       (computeAndSetFacetNormal pref ?f0) = Inr f"
    by (auto simp: Facet_of_vertices_def Let_def bind_err_def split: if_splits sum.splits)
  have n0: "normal (computeAndSetFacetNormal pref ?f0) = [0, 0, 0]"
    using dims col by (intro collinear_normal_zero [of a b c]) simp_all
  have sd: "spaceDimension (computeAndSetFacetNormal pref ?f0) = 3"
    by (simp add: computeAndSetFacetNormal_def Let_def reverseNormalVectorSign_def)
  from computeAndSet_bound_invariant [OF run] n0 sd
  have inv: "bound_invariant solve f" and n: "normal f = [0, 0, 0]"
    and sd': "spaceDimension f = 3"
    by simp_all
  from inv obtain ldp where ldp: "computeLowerDistalPoint solve f = Inr ldp"
    by (cases "computeLowerDistalPoint solve f") (simp_all add: bound_invariant_def)
  from inv ldp have flag: "isBoundaryFacet f \<longleftrightarrow> isNull ldp \<or> \<not> isStrictlyPositive ldp"
    by (auto simp: bound_invariant_def split: if_splits)
  have "localApproximationErrorUpperBound f = 0" if "\<not> isBoundaryFacet f"
  proof -
    from inv ldp that
    have "Facet_ratioDistance f ldp = Inr (localApproximationErrorUpperBound f)"
      by (auto simp: bound_invariant_def split: if_splits)
    then show ?thesis using zero_normal_ratioDistance [OF n sd'] by blast
  qed
  with n ldp flag show ?thesis by blast
qed

text \<open>
  The vertices \<open>(1, 1, 1)\<close>, \<open>(2, 2, 2)\<close>, \<open>(3, 3, 3)\<close> found with the unit weight
  vectors: the normal is zero, the Lower Distal Point is \<open>(1, 2, 3)\<close>.
\<close>

theorem collinear_facet_has_zero_normal_witness:
  "Facet_of_vertices cramer_solve [ex_c1, ex_c2, ex_c3] True = Inr ex_collinear_facet
   \<and> collinear3 (coordinates (point ex_c1)) (coordinates (point ex_c2))
        (coordinates (point ex_c3))
   \<and> normal ex_collinear_facet = [0, 0, 0]
   \<and> computeLowerDistalPoint cramer_solve ex_collinear_facet = Inr (mkPoint [1, 2, 3])
   \<and> localApproximationErrorUpperBound ex_collinear_facet = 0"
proof -
  have col: "collinear3 (coordinates (point ex_c1)) (coordinates (point ex_c2))
               (coordinates (point ex_c3))"
    by (simp add: collinear3_def ex_c1_def ex_c2_def ex_c3_def mkPoint_def)
  have ldp: "computeLowerDistalPoint cramer_solve ex_collinear_facet = Inr (mkPoint [1, 2, 3])"
    by code_simp
  have flag: "\<not> isBoundaryFacet ex_collinear_facet"
    by (simp add: ex_collinear_facet_def)
  from collinear_facet_has_zero_normal [OF ex_collinear_facet_constructed col]
    ex_collinear_facet_constructed col ldp flag
  show ?thesis by simp
qed

text \<open>
  The specification says that such a facet is marked boundary. The facet on
  \<open>(1, 1, 1)\<close>, \<open>(2, 2, 2)\<close>, \<open>(3, 3, 3)\<close> is constructed with the boundary flag false.
\<close>

theorem collinear_facet_counterexample:
  "collinear3 [1, 1, 1] [2, 2, 2] [3, 3, 3]
   \<and> Facet_of_vertices cramer_solve [ex_c1, ex_c2, ex_c3] True = Inr ex_collinear_facet
   \<and> coordinates (point ex_c1) = [1, 1, 1]
   \<and> coordinates (point ex_c2) = [2, 2, 2]
   \<and> coordinates (point ex_c3) = [3, 3, 3]
   \<and> isBoundaryFacet ex_collinear_facet = False"
  using ex_collinear_facet_constructed
  by (simp add: collinear3_def ex_c1_def ex_c2_def ex_c3_def mkPoint_def ex_collinear_facet_def)

subsection \<open>C6: equality and parallelism of hyperplanes\<close>

text \<open>
  C6. The specification has \<^verbatim>\<open>Hyperplane::operator==\<close> and \<^verbatim>\<open>Hyperplane::isParallel\<close>
  reflexive, symmetric and transitive. Both are reflexive and symmetric (lemmas
  \<open>Hyperplane_eq_refl\<close>, \<open>Hyperplane_eq_sym\<close>, \<open>isParallel_refl\<close>, \<open>isParallel_sym\<close>),
  but the code's cross-multiplication is not transitive: the all-zero hyperplane
  \<open>0 = 0\<close> is reported equal and parallel to both \<open>x = 1\<close> and \<open>y = 1\<close>, which are
  reported neither equal nor parallel to each other. The same comparison reports the
  different lines \<open>x = 0\<close> and \<open>y = 0\<close> as the same hyperplane, and the planes \<open>y = 1\<close>
  and \<open>z = 1\<close> of 3-dimensional space as parallel.
\<close>

theorem equality_and_parallel_not_transitive:
  "Hyperplane_eq (mkHyperplane [1, 0] 1) (mkHyperplane [0, 0] 0) = Inr True
   \<and> Hyperplane_eq (mkHyperplane [0, 0] 0) (mkHyperplane [0, 1] 1) = Inr True
   \<and> Hyperplane_eq (mkHyperplane [1, 0] 1) (mkHyperplane [0, 1] 1) = Inr False
   \<and> isParallel (mkHyperplane [1, 0] 1) (mkHyperplane [0, 0] 0) = Inr True
   \<and> isParallel (mkHyperplane [0, 0] 0) (mkHyperplane [0, 1] 1) = Inr True
   \<and> isParallel (mkHyperplane [1, 0] 1) (mkHyperplane [0, 1] 1) = Inr False
   \<and> Hyperplane_eq (mkHyperplane [1, 0] 0) (mkHyperplane [0, 1] 0) = Inr True
   \<and> isParallel (mkHyperplane [0, 1, 0] 1) (mkHyperplane [0, 0, 1] 1) = Inr True"
  by (simp add: Hyperplane_eq_def isParallel_def space_dimension_def mkHyperplane_def
      Hyperplane_at_def upt_rec)

subsection \<open>C7: intersection of two lines\<close>




subsection \<open>C8: hyperplanes through given points\<close>

text \<open>
  C8. The specification, like the constructors' own documentation, has the Point-range
  constructors yield a hyperplane through any \<open>d\<close> affinely independent points of
  dimension \<open>d\<close>. The code does so for two points only: \<^verbatim>\<open>Hyperplane::init\<close> asserts
  that its range holds exactly two points. For the four unit points of 4-dimensional
  space, and for the three unit points of 3-dimensional space (which are not
  collinear), the array constructor and the set constructor fail that assertion instead
  of returning a hyperplane.
\<close>

theorem point_range_constructors_fail_beyond_two_points:
  "Hyperplane_of_array
     [mkPoint [1, 0, 0, 0], mkPoint [0, 1, 0, 0], mkPoint [0, 0, 1, 0], mkPoint [0, 0, 0, 1]]
     = Inl AssertionFailure
   \<and> set_of_range
       [mkPoint [1, 0, 0, 0], mkPoint [0, 1, 0, 0], mkPoint [0, 0, 1, 0], mkPoint [0, 0, 0, 1]] []
     = Inr [mkPoint [0, 0, 0, 1], mkPoint [0, 0, 1, 0], mkPoint [0, 1, 0, 0], mkPoint [1, 0, 0, 0]]
   \<and> Hyperplane_of_set
       [mkPoint [0, 0, 0, 1], mkPoint [0, 0, 1, 0], mkPoint [0, 1, 0, 0], mkPoint [1, 0, 0, 0]]
     = Inl AssertionFailure
   \<and> \<not> collinear3 [1, 0, 0] [0, 1, 0] [0, 0, 1]
   \<and> Hyperplane_of_array [mkPoint [1, 0, 0], mkPoint [0, 1, 0], mkPoint [0, 0, 1]]
        = Inl AssertionFailure
   \<and> Hyperplane_of_set [mkPoint [0, 0, 1], mkPoint [0, 1, 0], mkPoint [1, 0, 0]]
        = Inl AssertionFailure"
  by (simp add: collinear3_def Hyperplane_of_array_def Hyperplane_of_set_def init_def
      mkPoint_def Point_less_def dimension_def)

subsection \<open>C9: the parallel hyperplane through a point\<close>

text \<open>
  C9. For every hyperplane \<open>h\<close> with coefficients \<open>a\<close> and every Point \<open>p\<close> of the same
  dimension, \<open>h.parallelThrough(p)\<close> yields a hyperplane with the same coefficients
  whose offset is \<open>a\<cdot>p\<close>, and \<open>h.isParallel(h.parallelThrough(p))\<close> is true.
\<close>

theorem parallelThrough_same_coefficients_and_parallel:
  assumes "dimension p = space_dimension h"
  shows "\<exists>h'. parallelThrough h p = Inr h'
           \<and> coefficients h' = coefficients h
           \<and> h_b h' = dot (coefficients h) (coordinates p)
           \<and> isParallel h h' = Inr True"
proof -
  from assms have "parallelThrough h p
      = Inr (mkHyperplane (coefficients h) (dot (coefficients h) (coordinates p)))"
    by (simp add: parallelThrough_def dot_loop_space_dimension)
  then show ?thesis
    by (simp add: mkHyperplane_def isParallel_char space_dimension_def)
qed

text \<open>The plane \<open>4x - 2y = -2\<close> of 3-dimensional space and the point \<open>(1, 1, 1)\<close>.\<close>

theorem parallelThrough_same_coefficients_and_parallel_witness:
  "dimension (mkPoint [1, 1, 1]) = space_dimension (mkHyperplane [4, - 2, 0] (- 2))
   \<and> (\<exists>h'. parallelThrough (mkHyperplane [4, - 2, 0] (- 2)) (mkPoint [1, 1, 1]) = Inr h'
           \<and> coefficients h' = coefficients (mkHyperplane [4, - 2, 0] (- 2))
           \<and> h_b h' = dot (coefficients (mkHyperplane [4, - 2, 0] (- 2)))
                          (coordinates (mkPoint [1, 1, 1]))
           \<and> isParallel (mkHyperplane [4, - 2, 0] (- 2)) h' = Inr True)"
proof -
  have d: "dimension (mkPoint [1, 1, 1]) = space_dimension (mkHyperplane [4, - 2, 0] (- 2))"
    by (simp add: dimension_def space_dimension_def mkPoint_def mkHyperplane_def)
  from parallelThrough_same_coefficients_and_parallel [OF d] d
  show ?thesis by blast
qed

subsection \<open>C10: the two-point constructor is symmetric\<close>

text \<open>
  C10. For every pair of distinct 2-dimensional points \<open>p1\<close>, \<open>p2\<close>, \<open>Hyperplane(p1, p2)\<close>
  and \<open>Hyperplane(p2, p1)\<close> both succeed and produce the same coefficients and the same
  offset.
\<close>

theorem two_point_constructor_symmetric:
  assumes "\<not> Point_eq p1 p2" "dimension p1 = 2" "dimension p2 = 2"
  shows "\<exists>h. Hyperplane_of_two_points p1 p2 = Inr h \<and> Hyperplane_of_two_points p2 p1 = Inr h"
proof -
  from assms have ne: "\<not> Point_eq p2 p1" by (simp add: Point_eq_def)
  have "Hyperplane_of_two_points p2 p1 = init (ordered_pair p2 p1)"
    using assms ne by (simp add: Hyperplane_of_two_points_init)
  also have "\<dots> = init (ordered_pair p1 p2)"
    using assms ordered_pair_commute [of p1 p2] by simp
  also have "\<dots> = Hyperplane_of_two_points p1 p2"
    using assms by (simp add: Hyperplane_of_two_points_init)
  finally show ?thesis
    using Hyperplane_of_two_points_succeeds [OF assms(2,3,1)] by auto
qed

text \<open>The points \<open>(1, 2)\<close> and \<open>(0, 1)\<close>, in both orders: the line \<open>x - y = -1\<close>.\<close>

theorem two_point_constructor_symmetric_witness:
  "\<not> Point_eq (mkPoint [1, 2]) (mkPoint [0, 1])
   \<and> dimension (mkPoint [1, 2]) = 2 \<and> dimension (mkPoint [0, 1]) = 2
   \<and> (\<exists>h. Hyperplane_of_two_points (mkPoint [1, 2]) (mkPoint [0, 1]) = Inr h
          \<and> Hyperplane_of_two_points (mkPoint [0, 1]) (mkPoint [1, 2]) = Inr h)"
proof -
  have ne: "\<not> Point_eq (mkPoint [1, 2]) (mkPoint [0, 1])"
    and d: "dimension (mkPoint [1, 2]) = 2" "dimension (mkPoint [0, 1]) = 2"
    by (simp_all add: Point_eq_def dimension_def mkPoint_def)
  from two_point_constructor_symmetric [OF ne d] ne d
  show ?thesis by blast
qed

end
